theory Spec2Isabelle
  imports Main
begin

section \<open>Syntax trees\<close>

text \<open>
  The compiler works on the syntax tree that the parser returns and on two patch buffers
  over the source text.  The parser and the patch buffer are libraries: the tree is an
  argument of the functions below, and a patch buffer is the original text together with
  the log of the edits made on it.

  A node carries its \<open>span\<close> (the offsets \<open>start\<close> and \<open>end\<close> in the source text) where the
  code reads one.  Node kinds that every function treats alike share one constructor and
  are told apart by a tag:
  \<^item> \<open>Leaf\<close>: the expressions that \<open>processExpr\<close> leaves alone;
  \<^item> \<open>Exotic\<close>: the expressions that \<open>processExpr\<close> refuses with \<open>Not implemented\<close>;
  \<^item> \<open>Aux\<close>: nodes that are no expressions but stand where one may stand;
  \<^item> \<open>UnaryLike\<close>: expressions with one operand that is visited;
  \<^item> \<open>TwoPart\<close>: expressions with two operands that are both visited;
  \<^item> \<open>TSWrapper\<close>: the four type-level wrappers that are expressions and assignment targets.
\<close>

type_synonym span = "nat \<times> nat"

datatype var_kind = KVar | KLet | KConst | KUsing | KAwaitUsing

datatype import_kind = ImportValue | ImportType | ImportTypeof

datatype leaf_kind =
    ThisExpression | ClassExpression | MetaProperty | Super | Import
  | StringLiteral | NumericLiteral | NullLiteral | BooleanLiteral
  | RegExpLiteral | BigIntLiteral | DecimalLiteral

datatype exotic_kind =
    ImportExpression | BindExpression | DoExpression | RecordExpression | TupleExpression
  | JSXElement | JSXFragment | ModuleExpression | TopicReference
  | PipelineTopicExpression | PipelineBareFunction | PipelinePrimaryTopicReference

datatype aux_kind =
    PrivateName | JSXNamespacedName | ArgumentPlaceholder | TSType | TSParameterProperty

datatype unary_kind =
    ParenthesizedExpression | UnaryExpression | UpdateExpression | AwaitExpression
  | TypeCastExpression | TSInstantiationExpression

datatype two_kind = LogicalExpression | TaggedTemplateExpression | OptionalMemberExpression

datatype ts_wrapper = TSAsExpression | TSSatisfiesExpression | TSTypeAssertion | TSNonNullExpression

datatype simple_kind = BreakStatement | ContinueStatement | DebuggerStatement | EmptyStatement

datatype export_kind =
    ExportAllDeclaration | ExportDefaultDeclaration | ExportNamedDeclaration
  | TSExportAssignment | TSNamespaceExportDeclaration

datatype type_decl_kind =
    DeclareClass | DeclareFunction | DeclareInterface | DeclareModule | DeclareModuleExports
  | DeclareTypeAlias | DeclareOpaqueType | DeclareVariable | DeclareExportDeclaration
  | DeclareExportAllDeclaration | InterfaceDeclaration | OpaqueType | TypeAlias
  | TSDeclareFunction | TSInterfaceDeclaration | TSTypeAliasDeclaration | TSModuleDeclaration

datatype node =
    Identifier span string
  | Leaf span leaf_kind
  | Exotic span exotic_kind
  | Aux span aux_kind
  | V8IntrinsicIdentifier span string
  | UnaryLike span unary_kind node
  | TwoPart span two_kind node node
  | TSWrapper span ts_wrapper node
  | YieldExpression span "node option"
  | ArrayExpression span "node option list"
  | AssignmentExpression span node node
  | BinaryExpression span node node
  | MemberExpression span node node
  | CallExpression span node "node list"
  | NewExpression span node "node list"
  | OptionalCallExpression span node "node list"
  | ConditionalExpression span node node node
  | FunctionExpression span "node list" stmt
  | ArrowFunctionExpression span "node list" "stmt + node"
  | ObjectExpression span "node list"
  | SequenceExpression span "node list"
  | TemplateLiteral span "node list"
  | SpreadElement span node
  | RestElement span node
  | AssignmentPattern span node node
  | ArrayPattern span "node option list"
  | ObjectPattern span "node list"
  | ObjectProperty span node node bool bool
  | ObjectMethod span "node list" stmt
and stmt =
    BlockStatement "stmt list"
  | SimpleStatement simple_kind
  | DoWhileStatement stmt node
  | ExpressionStatement node
  | ForInStatement "var_decl + node" node stmt
  | ForStatement "(var_decl + node) option" "node option" "node option" stmt
  | FunctionDeclaration "node list" stmt
  | IfStatement node stmt "stmt option"
  | LabeledStatement stmt
  | ReturnStatement "node option"
  | SwitchStatement node "switch_case list"
  | ThrowStatement node
  | TryStatement stmt "catch_clause option" "stmt option"
  | VariableDeclaration var_decl
  | WhileStatement node stmt
  | WithStatement node stmt
  | ClassDeclaration
  | ExportStatement export_kind
  | ForOfStatement "var_decl + node" node stmt
  | ImportDeclaration import_kind "string list"
  | TSImportEqualsDeclaration
  | EnumDeclaration
  | TypeDeclaration type_decl_kind
  | TSEnumDeclaration "node option list"
and var_decl = VarDecl var_kind "declarator list"
and declarator = VariableDeclarator node "node option"
and switch_case = SwitchCase "node option" "stmt list"
and catch_clause = CatchClause "node option" stmt

text \<open>
  Fields, in the order of the constructors' arguments:
  \<open>UnaryLike\<close> operand; \<open>TwoPart\<close> left and right (\<open>tag\<close> and \<open>quasi\<close>, \<open>object\<close> and \<open>property\<close>);
  \<open>MemberExpression\<close> object and property; call-like nodes callee and arguments;
  functions parameters and body; \<open>ObjectProperty\<close> key, value, \<open>computed\<close>, \<open>shorthand\<close>;
  \<open>DoWhileStatement\<close> body and test; \<open>ForInStatement\<close> and \<open>ForOfStatement\<close> left, right, body;
  \<open>ForStatement\<close> init, test, update, body; \<open>TryStatement\<close> block, handler, finalizer;
  \<open>ImportDeclaration\<close> import kind and the local names of its specifiers;
  \<open>TSEnumDeclaration\<close> the initializers of its members; \<open>VariableDeclarator\<close> id and init;
  \<open>SwitchCase\<close> test and consequent; \<open>CatchClause\<close> parameter and body.
\<close>

primrec span_of :: "node \<Rightarrow> span" where
  "span_of (Identifier sp _) = sp"
| "span_of (Leaf sp _) = sp"
| "span_of (Exotic sp _) = sp"
| "span_of (Aux sp _) = sp"
| "span_of (V8IntrinsicIdentifier sp _) = sp"
| "span_of (UnaryLike sp _ _) = sp"
| "span_of (TwoPart sp _ _ _) = sp"
| "span_of (TSWrapper sp _ _) = sp"
| "span_of (YieldExpression sp _) = sp"
| "span_of (ArrayExpression sp _) = sp"
| "span_of (AssignmentExpression sp _ _) = sp"
| "span_of (BinaryExpression sp _ _) = sp"
| "span_of (MemberExpression sp _ _) = sp"
| "span_of (CallExpression sp _ _) = sp"
| "span_of (NewExpression sp _ _) = sp"
| "span_of (OptionalCallExpression sp _ _) = sp"
| "span_of (ConditionalExpression sp _ _ _) = sp"
| "span_of (FunctionExpression sp _ _) = sp"
| "span_of (ArrowFunctionExpression sp _ _) = sp"
| "span_of (ObjectExpression sp _) = sp"
| "span_of (SequenceExpression sp _) = sp"
| "span_of (TemplateLiteral sp _) = sp"
| "span_of (SpreadElement sp _) = sp"
| "span_of (RestElement sp _) = sp"
| "span_of (AssignmentPattern sp _ _) = sp"
| "span_of (ArrayPattern sp _) = sp"
| "span_of (ObjectPattern sp _) = sp"
| "span_of (ObjectProperty sp _ _ _ _) = sp"
| "span_of (ObjectMethod sp _ _) = sp"

definition start_of :: "node \<Rightarrow> nat" where
  "start_of n = fst (span_of n)"

definition end_of :: "node \<Rightarrow> nat" where
  "end_of n = snd (span_of n)"

text \<open>The \<open>type\<close> field of the nodes whose kind ends up in the message of an error.\<close>

primrec exotic_type :: "exotic_kind \<Rightarrow> string" where
  "exotic_type ImportExpression = ''ImportExpression''"
| "exotic_type BindExpression = ''BindExpression''"
| "exotic_type DoExpression = ''DoExpression''"
| "exotic_type RecordExpression = ''RecordExpression''"
| "exotic_type TupleExpression = ''TupleExpression''"
| "exotic_type JSXElement = ''JSXElement''"
| "exotic_type JSXFragment = ''JSXFragment''"
| "exotic_type ModuleExpression = ''ModuleExpression''"
| "exotic_type TopicReference = ''TopicReference''"
| "exotic_type PipelineTopicExpression = ''PipelineTopicExpression''"
| "exotic_type PipelineBareFunction = ''PipelineBareFunction''"
| "exotic_type PipelinePrimaryTopicReference = ''PipelinePrimaryTopicReference''"

primrec ts_wrapper_type :: "ts_wrapper \<Rightarrow> string" where
  "ts_wrapper_type TSAsExpression = ''TSAsExpression''"
| "ts_wrapper_type TSSatisfiesExpression = ''TSSatisfiesExpression''"
| "ts_wrapper_type TSTypeAssertion = ''TSTypeAssertion''"
| "ts_wrapper_type TSNonNullExpression = ''TSNonNullExpression''"

text \<open>
  The alias tables of the syntax-tree library (\<open>t.isExpression\<close>, \<open>t.isPatternLike\<close>,
  \<open>t.isLVal\<close>, \<open>t.isJSXNamespacedName\<close>), restricted to the node kinds above.
\<close>

fun isExpression :: "node \<Rightarrow> bool" where
  "isExpression (Aux _ _) = False"
| "isExpression (V8IntrinsicIdentifier _ _) = False"
| "isExpression (SpreadElement _ _) = False"
| "isExpression (RestElement _ _) = False"
| "isExpression (AssignmentPattern _ _ _) = False"
| "isExpression (ArrayPattern _ _) = False"
| "isExpression (ObjectPattern _ _) = False"
| "isExpression (ObjectProperty _ _ _ _ _) = False"
| "isExpression (ObjectMethod _ _ _) = False"
| "isExpression _ = True"

fun isPatternLike :: "node \<Rightarrow> bool" where
  "isPatternLike (Identifier _ _) = True"
| "isPatternLike (RestElement _ _) = True"
| "isPatternLike (AssignmentPattern _ _ _) = True"
| "isPatternLike (ArrayPattern _ _) = True"
| "isPatternLike (ObjectPattern _ _) = True"
| "isPatternLike (TSWrapper _ _ _) = True"
| "isPatternLike _ = False"

fun isLVal :: "node \<Rightarrow> bool" where
  "isLVal (Identifier _ _) = True"
| "isLVal (MemberExpression _ _ _) = True"
| "isLVal (RestElement _ _) = True"
| "isLVal (AssignmentPattern _ _ _) = True"
| "isLVal (ArrayPattern _ _) = True"
| "isLVal (ObjectPattern _ _) = True"
| "isLVal (Aux _ TSParameterProperty) = True"
| "isLVal (TSWrapper _ _ _) = True"
| "isLVal _ = False"

section \<open>Errors and results\<close>

text \<open>
  Every \<open>throw new Error(message)\<close> of the source is a constructor of an error type, one
  type for each stage of the compiler, and \<open>message\<close> gives back the text the source throws.
  A read of a property of \<open>undefined\<close> is not thrown by the source itself: the runtime raises
  a \<open>TypeError\<close> there.  A function that may throw returns a sum, \<open>Inl\<close> the error.
\<close>

datatype binding_error =
    UnsupportedBindingType string
  | RestNotIdentifier
  | KeyNotIdentifier

datatype rewrite_error =
    NotImplemented string
  | CannotExport
  | CannotImport
  | UnsupportedDeclarationType
  | PropertyNotIdentifier
  | RestNotIdentifierInDecl
  | PropertyNotIdentifierInDecl
  | PropertyNotPatternInDecl

datatype error =
    EntryPointNotFound
  | BindingError binding_error
  | RewriteError rewrite_error
  | TypeError

primrec binding_message :: "binding_error \<Rightarrow> string" where
  "binding_message (UnsupportedBindingType t) = ''Unsupported binding type: '' @ t"
| "binding_message RestNotIdentifier = ''Rest element must be an identifier''"
| "binding_message KeyNotIdentifier = ''Object property must be an identifier''"

primrec rewrite_message :: "rewrite_error \<Rightarrow> string" where
  "rewrite_message (NotImplemented construct) = ''Not implemented: '' @ construct"
| "rewrite_message CannotExport = ''Cannot export from app main''"
| "rewrite_message CannotImport = ''Cannot import from app main''"
| "rewrite_message UnsupportedDeclarationType = ''Unsupported declaration type: MemberExpression''"
| "rewrite_message PropertyNotIdentifier = ''Object property must be an identifier''"
| "rewrite_message RestNotIdentifierInDecl = ''Rest element must be an identifier in variable decl''"
| "rewrite_message PropertyNotIdentifierInDecl =
     ''Object property must be an identifier in variable decl''"
| "rewrite_message PropertyNotPatternInDecl =
     ''Object property must be a pattern in variable decl''"

text \<open>The message of the \<open>TypeError\<close> is the runtime's; only its beginning is kept.\<close>

primrec message :: "error \<Rightarrow> string" where
  "message EntryPointNotFound = ''No app() call found''"
| "message (BindingError e) = binding_message e"
| "message (RewriteError e) = rewrite_message e"
| "message TypeError = ''Cannot read properties of undefined''"

definition and_then :: "'e + 'a \<Rightarrow> ('a \<Rightarrow> 'e + 'b) \<Rightarrow> 'e + 'b" where
  "and_then r f = (case r of Inl e \<Rightarrow> Inl e | Inr v \<Rightarrow> f v)"

text \<open>A \<open>for (const x of xs)\<close> loop whose body may throw, over the state \<open>s\<close>.\<close>

primrec forEach :: "('a \<Rightarrow> 's \<Rightarrow> 'e + 's) \<Rightarrow> 'a list \<Rightarrow> 's \<Rightarrow> 'e + 's" where
  "forEach f [] s = Inr s"
| "forEach f (x # xs) s = and_then (f x s) (forEach f xs)"

text \<open>An error of one stage, as an error of the compiler.\<close>

definition from_stage :: "('e \<Rightarrow> error) \<Rightarrow> 'e + 'a \<Rightarrow> error + 'a" where
  "from_stage wrap r = (case r of Inl e \<Rightarrow> Inl (wrap e) | Inr v \<Rightarrow> Inr v)"

section \<open>Patch buffers\<close>

text \<open>
  A \<open>MagicString\<close> is the original text and the edits made so far, oldest first.  The
  offsets of an edit are offsets in the original text.  Rendering the edited text is the
  library's business; the compiler's result is the pair of buffers it renders.
\<close>

datatype edit = Update nat nat string | Remove nat nat | Append string

record MagicString =
  original :: string
  edits :: "edit list"

definition new_MagicString :: "string \<Rightarrow> MagicString" where
  "new_MagicString text = \<lparr>original = text, edits = []\<rparr>"

definition update :: "MagicString \<Rightarrow> nat \<Rightarrow> nat \<Rightarrow> string \<Rightarrow> MagicString" where
  "update src s e content = src\<lparr>edits := edits src @ [Update s e content]\<rparr>"

definition remove :: "MagicString \<Rightarrow> nat \<Rightarrow> nat \<Rightarrow> MagicString" where
  "remove src s e = src\<lparr>edits := edits src @ [Remove s e]\<rparr>"

definition append_text :: "MagicString \<Rightarrow> string \<Rightarrow> MagicString" where
  "append_text src content = src\<lparr>edits := edits src @ [Append content]\<rparr>"

definition slice :: "MagicString \<Rightarrow> nat \<Rightarrow> nat \<Rightarrow> string" where
  "slice src s e = take (e - s) (drop s (original src))"

section \<open>Locating the entry call\<close>

definition localsName :: string where
  "localsName = ''__locals__''"

definition getLocalsName :: "string \<Rightarrow> string" where
  "getLocalsName ident = ''('' @ localsName @ ''.'' @ ident @ '')''"

record ParseResult =
  localsAst :: "stmt list"
  localsSrc :: MagicString
  mainAst :: node
  mainSrc :: MagicString

text \<open>The source returns \<open>undefined\<close> for every other callee; the caller reads it as false.\<close>

fun isCalleeApp :: "node \<Rightarrow> bool" where
  "isCalleeApp (V8IntrinsicIdentifier _ _) = False"
| "isCalleeApp (Identifier _ ident) = (ident = ''app'')"
| "isCalleeApp (CallExpression _ callee _) = isCalleeApp callee"
| "isCalleeApp (MemberExpression _ object _) = isCalleeApp object"
| "isCalleeApp _ = False"

fun isEntryStatement :: "stmt \<Rightarrow> bool" where
  "isEntryStatement (ExpressionStatement (CallExpression _ callee _)) = isCalleeApp callee"
| "isEntryStatement _ = False"

fun expression_of :: "stmt \<Rightarrow> node option" where
  "expression_of (ExpressionStatement e) = Some e"
| "expression_of _ = None"

definition filter_index :: "'a list \<Rightarrow> nat \<Rightarrow> 'a list" where
  "filter_index xs i = map snd (filter (\<lambda>(j, _). j \<noteq> i) (enumerate 0 xs))"

definition split_at :: "string \<Rightarrow> stmt list \<Rightarrow> nat \<Rightarrow> node \<Rightarrow> ParseResult" where
  "split_at src statements i expression =
     (let mainStart = start_of expression;
          mainEnd = end_of expression;
          localsSrc = remove (new_MagicString src) mainStart mainEnd;
          mainSrc = remove (remove (new_MagicString src) 0 mainStart) mainEnd (length src)
      in \<lparr>localsAst = filter_index statements i, localsSrc = localsSrc,
          mainAst = expression, mainSrc = mainSrc\<rparr>)"

function parse_from :: "string \<Rightarrow> stmt list \<Rightarrow> nat \<Rightarrow> error + ParseResult" where
  "parse_from src statements i =
     (if i < length statements then
        (let statement = statements ! i in
         if isEntryStatement statement then
           (case expression_of statement of
              Some expression \<Rightarrow> Inr (split_at src statements i expression)
            | None \<Rightarrow> parse_from src statements (i + 1))
         else parse_from src statements (i + 1))
      else Inl EntryPointNotFound)"
  by pat_completeness auto
termination
  by (relation "measure (\<lambda>(src, statements, i). length statements - i)") auto

declare parse_from.simps [simp del]

text \<open>The parser is a library: \<open>parse\<close> takes the statements it returns for \<open>src\<close>.\<close>

definition parse :: "string \<Rightarrow> stmt list \<Rightarrow> error + ParseResult" where
  "parse src statements = parse_from src statements 0"

section \<open>Small tests on nodes\<close>

fun identifier_name :: "node \<Rightarrow> string option" where
  "identifier_name (Identifier _ ident) = Some ident"
| "identifier_name _ = None"

fun v8_intrinsic_name :: "node \<Rightarrow> string option" where
  "v8_intrinsic_name (V8IntrinsicIdentifier _ ident) = Some ident"
| "v8_intrinsic_name _ = None"

fun isPrivateName :: "node \<Rightarrow> bool" where
  "isPrivateName (Aux _ PrivateName) = True"
| "isPrivateName _ = False"

fun isOptionalMemberExpression :: "node \<Rightarrow> bool" where
  "isOptionalMemberExpression (TwoPart _ OptionalMemberExpression _ _) = True"
| "isOptionalMemberExpression _ = False"

section \<open>The scoped rewriter\<close>

lemma forEach_cong [fundef_cong]:
  "xs = ys \<Longrightarrow> s = t \<Longrightarrow> (\<And>x u. x \<in> set ys \<Longrightarrow> f x u = g x u)
   \<Longrightarrow> forEach f xs s = forEach g ys t"
proof (induction ys arbitrary: xs s t)
  case Nil
  then show ?case by simp
next
  case (Cons y ys)
  then show ?case by (auto simp: and_then_def split: sum.splits)
qed

text \<open>
  The set \<open>bindings\<close> is mutable in the source.  A function that may delete from it
  returns the set with the buffer; a function that only reads it returns the buffer.
  Where the source passes a clone \<open>new Set(bindings)\<close>, the deletions made on the clone
  are dropped at the end of the construct: \<open>drop_clone\<close> gives the caller's set back.
\<close>

definition keep_bindings ::
  "string set \<Rightarrow> rewrite_error + MagicString \<Rightarrow> rewrite_error + (MagicString \<times> string set)" where
  "keep_bindings bindings r = and_then r (\<lambda>src. Inr (src, bindings))"

definition drop_clone ::
  "string set \<Rightarrow> rewrite_error + (MagicString \<times> string set) \<Rightarrow> rewrite_error + (MagicString \<times> string set)" where
  "drop_clone bindings r = and_then r (\<lambda>(src, inner). Inr (src, bindings))"

definition buffer_of :: "rewrite_error + (MagicString \<times> string set) \<Rightarrow> rewrite_error + MagicString" where
  "buffer_of r = and_then r (\<lambda>(src, inner). Inr src)"

definition shorthand_key :: "node \<Rightarrow> MagicString \<Rightarrow> string set \<Rightarrow> rewrite_error + MagicString" where
  "shorthand_key key src bindings =
     (case identifier_name key of
        None \<Rightarrow> Inl PropertyNotIdentifier
      | Some ident \<Rightarrow>
          if ident \<in> bindings
          then Inr (update src (start_of key) (end_of key) (ident @ '':'' @ getLocalsName ident))
          else Inr src)"

lemma and_then_cong [fundef_cong]:
  "r = r' \<Longrightarrow> (\<And>v. f v = g v) \<Longrightarrow> and_then r f = and_then r' g"
  by (auto simp: and_then_def split: sum.splits)

lemma size_node_in_set: "(x :: node) \<in> set xs \<Longrightarrow> size x \<le> size_list size xs"
  by (induction xs) auto

lemma size_stmt_in_set: "(x :: stmt) \<in> set xs \<Longrightarrow> size x \<le> size_list size xs"
  by (induction xs) auto

lemma size_declarator_in_set:
  "(x :: declarator) \<in> set xs \<Longrightarrow> size x \<le> size_list size xs"
  by (induction xs) auto

lemma size_switch_case_in_set:
  "(x :: switch_case) \<in> set xs \<Longrightarrow> size x \<le> size_list size xs"
  by (induction xs) auto

lemma size_Some_node_in_set:
  "Some (x :: node) \<in> set xs \<Longrightarrow> Suc (size x) \<le> size_list (size_option size) xs"
  by (induction xs) auto

function processStmt :: "stmt \<Rightarrow> MagicString \<Rightarrow> string set \<Rightarrow> rewrite_error + (MagicString \<times> string set)"
and processExpr :: "node \<Rightarrow> MagicString \<Rightarrow> string set \<Rightarrow> rewrite_error + MagicString"
and processLVal :: "node \<Rightarrow> MagicString \<Rightarrow> string set \<Rightarrow> rewrite_error + MagicString"
and processDeclarationId :: "node \<Rightarrow> MagicString \<Rightarrow> string set \<Rightarrow> rewrite_error + (MagicString \<times> string set)"
and processVariableDeclaration :: "var_decl \<Rightarrow> MagicString \<Rightarrow> string set \<Rightarrow> rewrite_error + (MagicString \<times> string set)"
and processExprOrPatternLike :: "node \<Rightarrow> MagicString \<Rightarrow> string set \<Rightarrow> rewrite_error + MagicString"
and processArgument :: "node \<Rightarrow> MagicString \<Rightarrow> string set \<Rightarrow> rewrite_error + MagicString"
where
  "processStmt ast src bindings =
     (case ast of
        BlockStatement body \<Rightarrow>
          drop_clone bindings
            (forEach (\<lambda>stmt (src, innerBindings). processStmt stmt src innerBindings)
               body (src, bindings))
      | SimpleStatement _ \<Rightarrow> Inr (src, bindings)
      | DoWhileStatement body _ \<Rightarrow> processStmt body src bindings
      | ExpressionStatement expression \<Rightarrow>
          keep_bindings bindings (processExpr expression src bindings)
      | ForInStatement left right body \<Rightarrow>
          drop_clone bindings
            (and_then
               (case left of
                  Inl declaration \<Rightarrow> processVariableDeclaration declaration src bindings
                | Inr lval \<Rightarrow> keep_bindings bindings (processLVal lval src bindings))
               (\<lambda>(src, innerBindings2).
                  and_then (processExpr right src innerBindings2)
                    (\<lambda>src. processStmt body src innerBindings2)))
      | ForStatement init test upd body \<Rightarrow>
          drop_clone bindings
            (and_then
               (case init of
                  None \<Rightarrow> Inr (src, bindings)
                | Some (Inl declaration) \<Rightarrow> processVariableDeclaration declaration src bindings
                | Some (Inr expression) \<Rightarrow>
                    keep_bindings bindings (processExpr expression src bindings))
               (\<lambda>(src, innerBindings3).
                  and_then (case test of None \<Rightarrow> Inr src
                            | Some expression \<Rightarrow> processExpr expression src innerBindings3)
                    (\<lambda>src.
                       and_then (case upd of None \<Rightarrow> Inr src
                                 | Some expression \<Rightarrow> processExpr expression src innerBindings3)
                         (\<lambda>src. processStmt body src innerBindings3))))
      | FunctionDeclaration params body \<Rightarrow>
          drop_clone bindings
            (and_then (forEach (\<lambda>param src. processLVal param src bindings) params src)
               (\<lambda>src. processStmt body src bindings))
      | IfStatement test consequent alternate \<Rightarrow>
          drop_clone bindings
            (and_then (processExpr test src bindings)
               (\<lambda>src.
                  and_then (processStmt consequent src bindings)
                    (\<lambda>(src, innerBindings5).
                       case alternate of
                         None \<Rightarrow> Inr (src, innerBindings5)
                       | Some stmt \<Rightarrow> processStmt stmt src innerBindings5)))
      | LabeledStatement body \<Rightarrow> processStmt body src bindings
      | ReturnStatement argument \<Rightarrow>
          (case argument of
             None \<Rightarrow> Inr (src, bindings)
           | Some expression \<Rightarrow> keep_bindings bindings (processExpr expression src bindings))
      | SwitchStatement discriminant cases \<Rightarrow>
          keep_bindings bindings
            (and_then (processExpr discriminant src bindings)
               (\<lambda>src. forEach
                  (\<lambda>caseClause src.
                     case caseClause of
                       SwitchCase test consequent \<Rightarrow>
                         and_then (case test of None \<Rightarrow> Inr src
                                   | Some expression \<Rightarrow> processExpr expression src bindings)
                           (\<lambda>src.
                              buffer_of
                                (forEach
                                   (\<lambda>stmt (src, innerBindings6).
                                      processStmt stmt src innerBindings6)
                                   consequent (src, bindings))))
                  cases src))
      | ThrowStatement argument \<Rightarrow> keep_bindings bindings (processExpr argument src bindings)
      | TryStatement block handler finalizer \<Rightarrow>
          and_then (processStmt block src bindings)
            (\<lambda>(src, bindings).
               and_then
                 (case handler of
                    None \<Rightarrow> Inr (src, bindings)
                  | Some (CatchClause param body) \<Rightarrow>
                      and_then (case param of None \<Rightarrow> Inr src
                                | Some lval \<Rightarrow> processLVal lval src bindings)
                        (\<lambda>src. processStmt body src bindings))
                 (\<lambda>(src, bindings).
                    case finalizer of
                      None \<Rightarrow> Inr (src, bindings)
                    | Some stmt \<Rightarrow> processStmt stmt src bindings))
      | VariableDeclaration declaration \<Rightarrow> processVariableDeclaration declaration src bindings
      | WhileStatement test body \<Rightarrow>
          drop_clone bindings
            (and_then (processExpr test src bindings) (\<lambda>src. processStmt body src bindings))
      | WithStatement object body \<Rightarrow>
          drop_clone bindings
            (and_then (processExpr object src bindings) (\<lambda>src. processStmt body src bindings))
      | ClassDeclaration \<Rightarrow> Inl (NotImplemented ''ClassDeclaration'')
      | ExportStatement _ \<Rightarrow> Inl CannotExport
      | ForOfStatement left right body \<Rightarrow>
          and_then (processExpr right src bindings)
            (\<lambda>src.
               case left of
                 Inl declaration \<Rightarrow> processVariableDeclaration declaration src bindings
               | Inr lval \<Rightarrow> keep_bindings bindings (processLVal lval src bindings))
      | ImportDeclaration _ _ \<Rightarrow> Inl CannotImport
      | TSImportEqualsDeclaration \<Rightarrow> Inl CannotImport
      | EnumDeclaration \<Rightarrow> Inl (NotImplemented ''EnumDeclaration'')
      | TypeDeclaration _ \<Rightarrow> Inr (src, bindings)
      | TSEnumDeclaration members \<Rightarrow>
          keep_bindings bindings
            (forEach
               (\<lambda>initializer src.
                  case initializer of
                    None \<Rightarrow> Inr src
                  | Some expression \<Rightarrow> processExpr expression src bindings)
               members src))"
| "processExpr ast src bindings =
     (case ast of
        ArrayExpression _ elements \<Rightarrow>
          forEach
            (\<lambda>element src.
               case element of
                 None \<Rightarrow> Inr src
               | Some element \<Rightarrow>
                   (case element of
                      SpreadElement _ argument \<Rightarrow> processExpr argument src bindings
                    | _ \<Rightarrow> processExpr element src bindings))
            elements src
      | AssignmentExpression _ left right \<Rightarrow>
          and_then
            (if isOptionalMemberExpression left then processExpr left src bindings
             else processLVal left src bindings)
            (\<lambda>src. processExpr right src bindings)
      | BinaryExpression _ left right \<Rightarrow>
          and_then (if \<not> isPrivateName left then processExpr left src bindings else Inr src)
            (\<lambda>src. processExpr right src bindings)
      | CallExpression _ callee arguments \<Rightarrow>
          (case v8_intrinsic_name callee of
             Some ident \<Rightarrow> Inl (NotImplemented ident)
           | None \<Rightarrow>
               and_then (processExpr callee src bindings)
                 (\<lambda>src. forEach (\<lambda>arg src. processArgument arg src bindings) arguments src))
      | ConditionalExpression _ test consequent alternate \<Rightarrow>
          and_then (processExpr test src bindings)
            (\<lambda>src.
               and_then (processExpr consequent src bindings)
                 (\<lambda>src. processExpr alternate src bindings))
      | FunctionExpression _ params body \<Rightarrow> buffer_of (processStmt body src bindings)
      | Identifier sp ident \<Rightarrow>
          if ident \<in> bindings then Inr (update src (fst sp) (snd sp) (getLocalsName ident))
          else Inr src
      | MemberExpression _ object property \<Rightarrow>
          and_then (processExpr object src bindings)
            (\<lambda>src.
               if \<not> isPrivateName property then processExpr property src bindings else Inr src)
      | NewExpression _ callee arguments \<Rightarrow>
          (case v8_intrinsic_name callee of
             Some ident \<Rightarrow> Inl (NotImplemented ident)
           | None \<Rightarrow>
               and_then (processExpr callee src bindings)
                 (\<lambda>src. forEach (\<lambda>arg src. processArgument arg src bindings) arguments src))
      | ObjectExpression _ properties \<Rightarrow>
          forEach
            (\<lambda>property src.
               case property of
                 ObjectProperty _ key val computed shorthand \<Rightarrow>
                   if shorthand
                   then shorthand_key key src bindings
                   else
                     and_then
                       (if \<not> isPrivateName key \<and> computed then processExpr key src bindings
                        else Inr src)
                       (\<lambda>src. processExprOrPatternLike val src bindings)
               | SpreadElement _ argument \<Rightarrow> processExpr argument src bindings
               | ObjectMethod _ params body \<Rightarrow>
                   and_then (forEach (\<lambda>param src. processLVal param src bindings) params src)
                     (\<lambda>src. buffer_of (processStmt body src bindings))
               | _ \<Rightarrow> Inr src)
            properties src
      | SequenceExpression _ expressions \<Rightarrow>
          forEach (\<lambda>expression src. processExpr expression src bindings) expressions src
      | UnaryLike _ _ argument \<Rightarrow> processExpr argument src bindings
      | ArrowFunctionExpression _ params body \<Rightarrow>
          and_then (forEach (\<lambda>param src. processLVal param src bindings) params src)
            (\<lambda>src.
               case body of
                 Inl block \<Rightarrow> buffer_of (processStmt block src bindings)
               | Inr expression \<Rightarrow> processExpr expression src bindings)
      | Leaf _ _ \<Rightarrow> Inr src
      | Exotic _ kind \<Rightarrow> Inl (NotImplemented (exotic_type kind))
      | TwoPart _ _ left right \<Rightarrow>
          and_then (processExpr left src bindings) (\<lambda>src. processExpr right src bindings)
      | TemplateLiteral _ expressions \<Rightarrow>
          forEach
            (\<lambda>expression src.
               if isExpression expression then processExpr expression src bindings else Inr src)
            expressions src
      | YieldExpression _ argument \<Rightarrow>
          (case argument of
             None \<Rightarrow> Inr src
           | Some expression \<Rightarrow> processExpr expression src bindings)
      | OptionalCallExpression _ callee arguments \<Rightarrow>
          and_then (processExpr callee src bindings)
            (\<lambda>src. forEach (\<lambda>arg src. processArgument arg src bindings) arguments src)
      | TSWrapper _ _ expression \<Rightarrow> processExpr expression src bindings
      | _ \<Rightarrow> Inr src)"
| "processLVal ast src bindings =
     (case ast of
        Identifier sp ident \<Rightarrow>
          if ident \<in> bindings then Inr (update src (fst sp) (snd sp) (getLocalsName ident))
          else Inr src
      | MemberExpression _ object property \<Rightarrow>
          and_then (processExpr object src bindings)
            (\<lambda>src.
               if \<not> isPrivateName property then processExpr property src bindings else Inr src)
      | RestElement _ argument \<Rightarrow> processLVal argument src bindings
      | AssignmentPattern _ left right \<Rightarrow>
          and_then (processLVal left src bindings) (\<lambda>src. processExpr right src bindings)
      | ArrayPattern _ elements \<Rightarrow>
          forEach
            (\<lambda>element src.
               case element of
                 None \<Rightarrow> Inr src
               | Some lval \<Rightarrow> processLVal lval src bindings)
            elements src
      | ObjectPattern _ properties \<Rightarrow>
          forEach
            (\<lambda>property src.
               case property of
                 RestElement _ _ \<Rightarrow> processLVal property src bindings
               | ObjectProperty _ key val computed shorthand \<Rightarrow>
                   if shorthand
                   then shorthand_key key src bindings
                   else
                     and_then
                       (if \<not> isPrivateName key \<and> computed then processExpr key src bindings
                        else Inr src)
                       (\<lambda>src. processExprOrPatternLike val src bindings)
               | _ \<Rightarrow> Inr src)
            properties src
      | TSWrapper _ _ expression \<Rightarrow> processExpr expression src bindings
      | _ \<Rightarrow> Inr src)"
| "processDeclarationId ast src bindings =
     (case ast of
        Identifier _ ident \<Rightarrow> Inr (src, bindings - {ident})
      | MemberExpression _ _ _ \<Rightarrow> Inl UnsupportedDeclarationType
      | RestElement _ argument \<Rightarrow>
          (case identifier_name argument of
             None \<Rightarrow> Inl RestNotIdentifierInDecl
           | Some ident \<Rightarrow> Inr (src, bindings - {ident}))
      | AssignmentPattern _ left right \<Rightarrow>
          and_then (processDeclarationId left src bindings)
            (\<lambda>(src, bindings). keep_bindings bindings (processExpr right src bindings))
      | ArrayPattern _ elements \<Rightarrow>
          forEach
            (\<lambda>element (src, bindings).
               case element of
                 None \<Rightarrow> Inr (src, bindings)
               | Some lval \<Rightarrow> processDeclarationId lval src bindings)
            elements (src, bindings)
      | ObjectPattern _ properties \<Rightarrow>
          forEach
            (\<lambda>property (src, bindings).
               case property of
                 RestElement _ argument \<Rightarrow>
                   (case identifier_name argument of
                      None \<Rightarrow> Inl RestNotIdentifierInDecl
                    | Some ident \<Rightarrow> Inr (src, bindings - {ident}))
               | ObjectProperty _ key val computed shorthand \<Rightarrow>
                   if shorthand then
                     (case identifier_name key of
                        None \<Rightarrow>
                          Inl PropertyNotIdentifierInDecl
                      | Some ident \<Rightarrow> Inr (src, bindings - {ident}))
                   else
                     and_then
                       (if \<not> isPrivateName key \<and> computed then processExpr key src bindings
                        else Inr src)
                       (\<lambda>src.
                          if \<not> isLVal val
                          then Inl PropertyNotPatternInDecl
                          else processDeclarationId val src bindings)
               | _ \<Rightarrow> Inr (src, bindings))
            properties (src, bindings)
      | TSWrapper _ _ expression \<Rightarrow> keep_bindings bindings (processExpr expression src bindings)
      | _ \<Rightarrow> Inr (src, bindings))"
| "processVariableDeclaration ast src bindings =
     (case ast of
        VarDecl _ declarations \<Rightarrow>
          forEach
            (\<lambda>declaration (src, bindings).
               case declaration of
                 VariableDeclarator ident init \<Rightarrow>
                   and_then (case init of None \<Rightarrow> Inr src
                             | Some expression \<Rightarrow> processExpr expression src bindings)
                     (\<lambda>src. processDeclarationId ident src bindings))
            declarations (src, bindings))"
| "processExprOrPatternLike ast src bindings =
     (if isPatternLike ast then processLVal ast src bindings else processExpr ast src bindings)"
| "processArgument ast src bindings =
     (case ast of
        Aux _ JSXNamespacedName \<Rightarrow> Inr src
      | SpreadElement _ argument \<Rightarrow> processExpr argument src bindings
      | Aux _ ArgumentPlaceholder \<Rightarrow> Inl (NotImplemented ''ArgumentPlaceholder'')
      | _ \<Rightarrow> processExpr ast src bindings)"
  by pat_completeness auto


termination
  apply (relation "measure (\<lambda>x. case x of
      Inl (Inl (ast, _, _)) \<Rightarrow> 2 * size ast
    | Inl (Inr (Inl (ast, _, _))) \<Rightarrow> 2 * size ast
    | Inl (Inr (Inr (ast, _, _))) \<Rightarrow> 2 * size ast
    | Inr (Inl (Inl (ast, _, _))) \<Rightarrow> 2 * size ast
    | Inr (Inl (Inr (ast, _, _))) \<Rightarrow> 2 * size ast
    | Inr (Inr (Inl (ast, _, _))) \<Rightarrow> 2 * size ast + 1
    | Inr (Inr (Inr (ast, _, _))) \<Rightarrow> 2 * size ast + 1)")
  apply (auto dest!: size_node_in_set size_stmt_in_set size_declarator_in_set size_switch_case_in_set size_Some_node_in_set)
  done

declare processStmt.simps [simp del] processExpr.simps [simp del] processLVal.simps [simp del]
  processDeclarationId.simps [simp del] processVariableDeclaration.simps [simp del]
  processExprOrPatternLike.simps [simp del] processArgument.simps [simp del]

section \<open>Binding extraction\<close>

record Binding =
  name :: string
  readonly :: bool

definition push :: "Binding list \<Rightarrow> string \<Rightarrow> bool \<Rightarrow> binding_error + Binding list" where
  "push bindings ident ro = Inr (bindings @ [\<lparr>name = ident, readonly = ro\<rparr>])"

text \<open>One entry of an object pattern that is the target of a top-level declaration.\<close>

fun bindingsOfProperty :: "bool \<Rightarrow> node \<Rightarrow> Binding list \<Rightarrow> binding_error + Binding list" where
  "bindingsOfProperty ro (RestElement _ argument) bindings =
     (case identifier_name argument of
        None \<Rightarrow> Inl RestNotIdentifier
      | Some ident \<Rightarrow> push bindings ident ro)"
| "bindingsOfProperty ro (ObjectProperty _ key _ _ _) bindings =
     (case identifier_name key of
        None \<Rightarrow> Inl KeyNotIdentifier
      | Some ident \<Rightarrow> push bindings ident ro)"
| "bindingsOfProperty ro _ bindings = Inr bindings"

text \<open>The \<open>switch (id.type)\<close> on the target of one declarator.\<close>

fun bindingsOfId :: "bool \<Rightarrow> MagicString \<Rightarrow> node \<Rightarrow> Binding list \<Rightarrow> binding_error + Binding list" where
  "bindingsOfId ro source (Identifier _ ident) bindings = push bindings ident ro"
| "bindingsOfId ro source (MemberExpression sp _ _) bindings =
     push bindings (slice source (fst sp) (snd sp)) ro"
| "bindingsOfId ro source (ArrayPattern _ _) bindings = Inr bindings"
| "bindingsOfId ro source (ObjectPattern _ properties) bindings =
     forEach (bindingsOfProperty ro) properties bindings"
| "bindingsOfId ro source (RestElement _ _) bindings =
     Inl (UnsupportedBindingType ''RestElement'')"
| "bindingsOfId ro source (AssignmentPattern _ _ _) bindings =
     Inl (UnsupportedBindingType ''AssignmentPattern'')"
| "bindingsOfId ro source (Aux _ TSParameterProperty) bindings =
     Inl (UnsupportedBindingType ''TSParameterProperty'')"
| "bindingsOfId ro source (TSWrapper _ wrapper _) bindings =
     Inl (UnsupportedBindingType (ts_wrapper_type wrapper))"
| "bindingsOfId ro source _ bindings = Inr bindings"

fun bindingsOfDeclarator ::
  "bool \<Rightarrow> MagicString \<Rightarrow> declarator \<Rightarrow> Binding list \<Rightarrow> binding_error + Binding list" where
  "bindingsOfDeclarator ro source (VariableDeclarator ident _) bindings =
     bindingsOfId ro source ident bindings"

definition bindingsOfSpecifier :: "string \<Rightarrow> Binding list \<Rightarrow> binding_error + Binding list" where
  "bindingsOfSpecifier local bindings =
     (if local \<noteq> ''app'' then push bindings local True else Inr bindings)"

text \<open>The body of the loop over the top-level statements.\<close>

fun bindingsOfStatement :: "MagicString \<Rightarrow> stmt \<Rightarrow> Binding list \<Rightarrow> binding_error + Binding list" where
  "bindingsOfStatement source (VariableDeclaration (VarDecl kind declarations)) bindings =
     forEach (bindingsOfDeclarator (kind = KConst) source) declarations bindings"
| "bindingsOfStatement source (ImportDeclaration importKind specifiers) bindings =
     (if importKind = ImportType then Inr bindings
      else forEach bindingsOfSpecifier specifiers bindings)"
| "bindingsOfStatement source _ bindings = Inr bindings"

definition getBindings :: "ParseResult \<Rightarrow> binding_error + Binding list" where
  "getBindings pr = forEach (bindingsOfStatement (localsSrc pr)) (localsAst pr) []"

section \<open>The two modules\<close>

definition exportEntry :: "Binding \<Rightarrow> string" where
  "exportEntry b =
     (if readonly b then name b @ '',''
      else ''get '' @ name b @ ''() { return '' @ name b @ '' },'' @
           ''set '' @ name b @ ''(v) { '' @ name b @ '' = v },'')"

definition appendExport :: "ParseResult \<Rightarrow> Binding list \<Rightarrow> ParseResult" where
  "appendExport pr bindings =
     pr\<lparr>localsSrc :=
          append_text (localsSrc pr)
            (foldl (\<lambda>str b. str @ exportEntry b) ''export default Object.seal({'' bindings
             @ ''})'')\<rparr>"

text \<open>
  \<open>wrapMain\<close> reads \<open>mainAst.arguments[0].start\<close> with no test: with no argument,
  \<open>arguments[0]\<close> is \<open>undefined\<close> and the read raises the runtime's \<open>TypeError\<close>.
\<close>

fun wrapMain :: "ParseResult \<Rightarrow> error + ParseResult" where
  "wrapMain pr =
     (case mainAst pr of
        CallExpression sp _ arguments \<Rightarrow>
          (case arguments of
             [] \<Rightarrow> Inl TypeError
           | argument0 # _ \<Rightarrow>
               Inr (pr\<lparr>mainSrc :=
                         remove
                           (update (mainSrc pr) (fst sp) (start_of argument0)
                              (''export default ('' @ localsName @ '') =>''))
                           (end_of argument0) (snd sp)\<rparr>))
      | _ \<Rightarrow> Inl TypeError)"

record CompileResult =
  locals :: MagicString
  main :: MagicString

text \<open>
  \<open>compile\<close> takes the text and the statements the parser returns for it.  Its result
  holds the two buffers on which the source calls \<open>toString\<close>.
\<close>

definition compile :: "string \<Rightarrow> stmt list \<Rightarrow> error + CompileResult" where
  "compile src statements =
     and_then (parse src statements)
       (\<lambda>parseResult.
          and_then (from_stage BindingError (getBindings parseResult))
            (\<lambda>bindings.
               let parseResult = appendExport parseResult bindings in
               and_then
                 (from_stage RewriteError
                    (processExpr (mainAst parseResult) (mainSrc parseResult)
                       (set (map name bindings))))
                 (\<lambda>src.
                    and_then (wrapMain (parseResult\<lparr>mainSrc := src\<rparr>))
                      (\<lambda>parseResult.
                         Inr \<lparr>locals = localsSrc parseResult, main = mainSrc parseResult\<rparr>))))"

section \<open>Example scripts\<close>

text \<open>
  Each script is its text and the statements the parser returns for it, with the offsets
  of the nodes in the text.
\<close>

definition shadow_src :: string where
  "shadow_src = ''let x = 1; app(() => { let x = 2; return x; })''"

definition shadow_ast :: "stmt list" where
  "shadow_ast =
     [VariableDeclaration (VarDecl KLet
        [VariableDeclarator (Identifier (4, 5) ''x'') (Some (Leaf (8, 9) NumericLiteral))]),
      ExpressionStatement (CallExpression (11, 46) (Identifier (11, 14) ''app'')
        [ArrowFunctionExpression (15, 45) [] (Inl (BlockStatement
           [VariableDeclaration (VarDecl KLet
              [VariableDeclarator (Identifier (27, 28) ''x'') (Some (Leaf (31, 32) NumericLiteral))]),
            ReturnStatement (Some (Identifier (41, 42) ''x''))]))])]"

definition nested_src :: string where
  "nested_src = ''let x = 1; app(() => { x; { let x = 2; x; } x; })''"

definition nested_ast :: "stmt list" where
  "nested_ast =
     [VariableDeclaration (VarDecl KLet
        [VariableDeclarator (Identifier (4, 5) ''x'') (Some (Leaf (8, 9) NumericLiteral))]),
      ExpressionStatement (CallExpression (11, 49) (Identifier (11, 14) ''app'')
        [ArrowFunctionExpression (15, 48) [] (Inl (BlockStatement
           [ExpressionStatement (Identifier (23, 24) ''x''),
            BlockStatement
              [VariableDeclaration (VarDecl KLet
                 [VariableDeclarator (Identifier (32, 33) ''x'')
                    (Some (Leaf (36, 37) NumericLiteral))]),
               ExpressionStatement (Identifier (39, 40) ''x'')],
            ExpressionStatement (Identifier (44, 45) ''x'')]))])]"

definition initializer_src :: string where
  "initializer_src = ''let x = 1; app(() => { let x = x + 1; })''"

definition initializer_ast :: "stmt list" where
  "initializer_ast =
     [VariableDeclaration (VarDecl KLet
        [VariableDeclarator (Identifier (4, 5) ''x'') (Some (Leaf (8, 9) NumericLiteral))]),
      ExpressionStatement (CallExpression (11, 40) (Identifier (11, 14) ''app'')
        [ArrowFunctionExpression (15, 39) [] (Inl (BlockStatement
           [VariableDeclaration (VarDecl KLet
              [VariableDeclarator (Identifier (27, 28) ''x'')
                 (Some (BinaryExpression (31, 36) (Identifier (31, 32) ''x'')
                    (Leaf (35, 36) NumericLiteral)))])]))])]"

definition kinds_src :: string where
  "kinds_src = ''const a = 1; let b = 2; import {c} from \"m\";''"

definition kinds_ast :: "stmt list" where
  "kinds_ast =
     [VariableDeclaration (VarDecl KConst
        [VariableDeclarator (Identifier (6, 7) ''a'') (Some (Leaf (10, 11) NumericLiteral))]),
      VariableDeclaration (VarDecl KLet
        [VariableDeclarator (Identifier (17, 18) ''b'') (Some (Leaf (21, 22) NumericLiteral))]),
      ImportDeclaration ImportValue [''c'']]"



definition parameter_src :: string where
  "parameter_src = ''let x = 1; app(() => { function f(x) { return x; } });''"

definition parameter_ast :: "stmt list" where
  "parameter_ast =
     [VariableDeclaration (VarDecl KLet
        [VariableDeclarator (Identifier (4, 5) ''x'') (Some (Leaf (8, 9) NumericLiteral))]),
      ExpressionStatement (CallExpression (11, 53) (Identifier (11, 14) ''app'')
        [ArrowFunctionExpression (15, 52) [] (Inl (BlockStatement
           [FunctionDeclaration [Identifier (34, 35) ''x'']
              (BlockStatement [ReturnStatement (Some (Identifier (46, 47) ''x''))])]))])]"

definition catch_src :: string where
  "catch_src = ''let e = 1; app(() => { try { } catch (e) { e; } });''"

definition catch_ast :: "stmt list" where
  "catch_ast =
     [VariableDeclaration (VarDecl KLet
        [VariableDeclarator (Identifier (4, 5) ''e'') (Some (Leaf (8, 9) NumericLiteral))]),
      ExpressionStatement (CallExpression (11, 50) (Identifier (11, 14) ''app'')
        [ArrowFunctionExpression (15, 49) [] (Inl (BlockStatement
           [TryStatement (BlockStatement [])
              (Some (CatchClause (Some (Identifier (38, 39) ''e''))
                 (BlockStatement [ExpressionStatement (Identifier (43, 44) ''e'')])))
              None]))])]"

definition for_of_src :: string where
  "for_of_src = ''let x = 1; app(() => { for (const x of []) { } x; });''"

definition for_of_ast :: "stmt list" where
  "for_of_ast =
     [VariableDeclaration (VarDecl KLet
        [VariableDeclarator (Identifier (4, 5) ''x'') (Some (Leaf (8, 9) NumericLiteral))]),
      ExpressionStatement (CallExpression (11, 52) (Identifier (11, 14) ''app'')
        [ArrowFunctionExpression (15, 51) [] (Inl (BlockStatement
           [ForOfStatement
              (Inl (VarDecl KConst [VariableDeclarator (Identifier (34, 35) ''x'') None]))
              (ArrayExpression (39, 41) []) (BlockStatement []),
            ExpressionStatement (Identifier (47, 48) ''x'')]))])]"

definition class_src :: string where
  "class_src = ''app(() => { return class { }; });''"

definition class_ast :: "stmt list" where
  "class_ast =
     [ExpressionStatement (CallExpression (0, 32) (Identifier (0, 3) ''app'')
        [ArrowFunctionExpression (4, 31) [] (Inl (BlockStatement
           [ReturnStatement (Some (Leaf (19, 28) ClassExpression))]))])]"

definition no_argument_src :: string where
  "no_argument_src = ''app();''"

definition no_argument_ast :: "stmt list" where
  "no_argument_ast = [ExpressionStatement (CallExpression (0, 5) (Identifier (0, 3) ''app'') [])]"

definition plain_entry_ast :: "stmt list" where
  "plain_entry_ast =
     [ExpressionStatement (CallExpression (0, 13) (Identifier (0, 3) ''app'')
        [ArrowFunctionExpression (4, 12) [] (Inl (BlockStatement []))])]"

definition chained_entry_ast :: "stmt list" where
  "chained_entry_ast =
     [ExpressionStatement (CallExpression (0, 28)
        (MemberExpression (0, 18)
           (CallExpression (0, 14)
              (MemberExpression (0, 10) (Identifier (0, 3) ''app'') (Identifier (4, 10) ''config''))
              [ObjectExpression (11, 13) []])
           (Identifier (15, 18) ''run''))
        [ArrowFunctionExpression (19, 27) [] (Inl (BlockStatement []))])]"

definition curried_entry_ast :: "stmt list" where
  "curried_entry_ast =
     [ExpressionStatement (CallExpression (0, 15)
        (CallExpression (0, 5) (Identifier (0, 3) ''app'') [])
        [ArrowFunctionExpression (6, 14) [] (Inl (BlockStatement []))])]"

definition no_entry_ast :: "stmt list" where
  "no_entry_ast =
     [ExpressionStatement (CallExpression (0, 11) (Identifier (0, 1) ''f'')
        [ArrowFunctionExpression (2, 10) [] (Inl (BlockStatement []))])]"


section \<open>The entry call, as the specification words it\<close>

text \<open>
  A callee is app-rooted if it is the identifier \<open>app\<close>, or a call whose callee is
  app-rooted, or a member access whose object is app-rooted.
\<close>

inductive app_rooted :: "node \<Rightarrow> bool" where
  root: "app_rooted (Identifier sp ''app'')"
| call: "app_rooted callee \<Longrightarrow> app_rooted (CallExpression sp callee arguments)"
| member: "app_rooted object \<Longrightarrow> app_rooted (MemberExpression sp object property)"

definition entry_call :: "stmt \<Rightarrow> bool" where
  "entry_call s =
     (\<exists>sp callee arguments.
        s = ExpressionStatement (CallExpression sp callee arguments) \<and> app_rooted callee)"

definition do_while_src :: string where
  "do_while_src = ''let x = 1; app(() => { do { } while (x); });''"

definition do_while_ast :: "stmt list" where
  "do_while_ast =
     [VariableDeclaration (VarDecl KLet
        [VariableDeclarator (Identifier (4, 5) ''x'') (Some (Leaf (8, 9) NumericLiteral))]),
      ExpressionStatement (CallExpression (11, 43) (Identifier (11, 14) ''app'')
        [ArrowFunctionExpression (15, 42) [] (Inl (BlockStatement
           [DoWhileStatement (BlockStatement []) (Identifier (37, 38) ''x'')]))])]"

definition while_src :: string where
  "while_src = ''let x = 1; app(() => { while (x) { } });''"

definition while_ast :: "stmt list" where
  "while_ast =
     [VariableDeclaration (VarDecl KLet
        [VariableDeclarator (Identifier (4, 5) ''x'') (Some (Leaf (8, 9) NumericLiteral))]),
      ExpressionStatement (CallExpression (11, 39) (Identifier (11, 14) ''app'')
        [ArrowFunctionExpression (15, 38) [] (Inl (BlockStatement
           [WhileStatement (Identifier (30, 31) ''x'') (BlockStatement [])]))])]"

definition for_of_body_src :: string where
  "for_of_body_src = ''let x = 1; app(() => { for (const y of []) { let z = x; } });''"

definition for_of_body_ast :: "stmt list" where
  "for_of_body_ast =
     [VariableDeclaration (VarDecl KLet
        [VariableDeclarator (Identifier (4, 5) ''x'') (Some (Leaf (8, 9) NumericLiteral))]),
      ExpressionStatement (CallExpression (11, 60) (Identifier (11, 14) ''app'')
        [ArrowFunctionExpression (15, 59) [] (Inl (BlockStatement
           [ForOfStatement
              (Inl (VarDecl KConst [VariableDeclarator (Identifier (34, 35) ''y'') None]))
              (ArrayExpression (39, 41) [])
              (BlockStatement
                 [VariableDeclaration (VarDecl KLet
                    [VariableDeclarator (Identifier (49, 50) ''z'')
                       (Some (Identifier (53, 54) ''x''))])])]))])]"

definition for_in_body_src :: string where
  "for_in_body_src = ''let x = 1; app(() => { for (const y in {}) { let z = x; } });''"

definition for_in_body_ast :: "stmt list" where
  "for_in_body_ast =
     [VariableDeclaration (VarDecl KLet
        [VariableDeclarator (Identifier (4, 5) ''x'') (Some (Leaf (8, 9) NumericLiteral))]),
      ExpressionStatement (CallExpression (11, 60) (Identifier (11, 14) ''app'')
        [ArrowFunctionExpression (15, 59) [] (Inl (BlockStatement
           [ForInStatement
              (Inl (VarDecl KConst [VariableDeclarator (Identifier (34, 35) ''y'') None]))
              (ObjectExpression (39, 41) [])
              (BlockStatement
                 [VariableDeclaration (VarDecl KLet
                    [VariableDeclarator (Identifier (49, 50) ''z'')
                       (Some (Identifier (53, 54) ''x''))])])]))])]"

definition pattern_src :: string where
  "pattern_src = ''const {c, ...f} = o; let {k: v} = o;''"

definition pattern_ast :: "stmt list" where
  "pattern_ast =
     [VariableDeclaration (VarDecl KConst
        [VariableDeclarator
           (ObjectPattern (6, 15)
              [ObjectProperty (7, 8) (Identifier (7, 8) ''c'') (Identifier (7, 8) ''c'') False True,
               RestElement (10, 14) (Identifier (13, 14) ''f'')])
           (Some (Identifier (18, 19) ''o''))]),
      VariableDeclaration (VarDecl KLet
        [VariableDeclarator
           (ObjectPattern (25, 31)
              [ObjectProperty (26, 30) (Identifier (26, 27) ''k'') (Identifier (29, 30) ''v'')
                 False False])
           (Some (Identifier (34, 35) ''o''))])]"



definition later_entry_src :: string where
  "later_entry_src = ''let x = 1; app()(() => {}); f(() => {});''"

definition later_entry_ast :: "stmt list" where
  "later_entry_ast =
     [VariableDeclaration (VarDecl KLet
        [VariableDeclarator (Identifier (4, 5) ''x'') (Some (Leaf (8, 9) NumericLiteral))]),
      ExpressionStatement (CallExpression (11, 26)
        (CallExpression (11, 16) (Identifier (11, 14) ''app'') [])
        [ArrowFunctionExpression (17, 25) [] (Inl (BlockStatement []))]),
      ExpressionStatement (CallExpression (28, 39) (Identifier (28, 29) ''f'')
        [ArrowFunctionExpression (30, 38) [] (Inl (BlockStatement []))])]"

section \<open>Binding extraction, as the specification words it\<close>

text \<open>
  The names a declaration target contributes: a simple name itself; a property-path target
  its source text; an array pattern nothing; an object pattern the identifier of a rest
  capture and the key of a keyed entry, in their order; any other target shape is
  unsupported (\<open>None\<close>).  A declaration yields a binding for each name of each declarator,
  read-only exactly for the kind \<open>const\<close>; an import that is not type-only yields a
  read-only binding for each local name but \<open>app\<close>; any other statement yields nothing.  The
  bindings of a script are those of its statements, in their order.
\<close>

primrec collect :: "('a \<Rightarrow> 'b list option) \<Rightarrow> 'a list \<Rightarrow> 'b list option" where
  "collect f [] = Some []"
| "collect f (x # xs) =
     (case f x of None \<Rightarrow> None | Some ys \<Rightarrow> map_option ((@) ys) (collect f xs))"

fun spec_property_names :: "node \<Rightarrow> string list option" where
  "spec_property_names (RestElement _ argument) =
     map_option (\<lambda>ident. [ident]) (identifier_name argument)"
| "spec_property_names (ObjectProperty _ key _ _ _) =
     map_option (\<lambda>ident. [ident]) (identifier_name key)"
| "spec_property_names _ = Some []"

fun spec_target_names :: "MagicString \<Rightarrow> node \<Rightarrow> string list option" where
  "spec_target_names buf (Identifier _ ident) = Some [ident]"
| "spec_target_names buf (MemberExpression sp _ _) = Some [slice buf (fst sp) (snd sp)]"
| "spec_target_names buf (ArrayPattern _ _) = Some []"
| "spec_target_names buf (ObjectPattern _ properties) = collect spec_property_names properties"
| "spec_target_names buf (RestElement _ _) = None"
| "spec_target_names buf (AssignmentPattern _ _ _) = None"
| "spec_target_names buf (Aux _ TSParameterProperty) = None"
| "spec_target_names buf (TSWrapper _ _ _) = None"
| "spec_target_names buf _ = Some []"

fun spec_declarator_names :: "MagicString \<Rightarrow> declarator \<Rightarrow> string list option" where
  "spec_declarator_names buf (VariableDeclarator target _) = spec_target_names buf target"

fun spec_statement_bindings :: "MagicString \<Rightarrow> stmt \<Rightarrow> Binding list option" where
  "spec_statement_bindings buf (VariableDeclaration (VarDecl kind declarations)) =
     map_option (map (\<lambda>ident. \<lparr>name = ident, readonly = (kind = KConst)\<rparr>))
       (collect (spec_declarator_names buf) declarations)"
| "spec_statement_bindings buf (ImportDeclaration importKind specifiers) =
     Some (if importKind = ImportType then []
           else map (\<lambda>local. \<lparr>name = local, readonly = True\<rparr>)
                  (filter (\<lambda>local. local \<noteq> ''app'') specifiers))"
| "spec_statement_bindings buf _ = Some []"

definition spec_bindings :: "MagicString \<Rightarrow> stmt list \<Rightarrow> Binding list option" where
  "spec_bindings buf statements = collect (spec_statement_bindings buf) statements"

text \<open>The result of a function that may throw, the error forgotten.\<close>

definition outcome :: "'e + 'a \<Rightarrow> 'a option" where
  "outcome r = (case r of Inl e \<Rightarrow> None | Inr v \<Rightarrow> Some v)"

section \<open>Basic facts\<close>

lemma and_then_Inl [simp]: "and_then (Inl e) f = Inl e"
  by (simp add: and_then_def)

lemma and_then_Inr [simp]: "and_then (Inr v) f = f v"
  by (simp add: and_then_def)

lemma and_then_assoc: "and_then (and_then r f) g = and_then r (\<lambda>v. and_then (f v) g)"
  by (cases r) simp_all

lemma keep_bindings_simps [simp]:
  "keep_bindings b (Inl e) = Inl e"
  "keep_bindings b (Inr src) = Inr (src, b)"
  by (simp_all add: keep_bindings_def)

lemma drop_clone_simps [simp]:
  "drop_clone b (Inl e) = Inl e"
  "drop_clone b (Inr (src, inner)) = Inr (src, b)"
  by (simp_all add: drop_clone_def)

lemma buffer_of_simps [simp]:
  "buffer_of (Inl e) = Inl e"
  "buffer_of (Inr (src, inner)) = Inr src"
  by (simp_all add: buffer_of_def)

lemma drop_clone_drop_clone [simp]: "drop_clone b (drop_clone b' r) = drop_clone b r"
  by (cases r) auto

lemma drop_clone_and_then:
  "drop_clone b (and_then r f) = and_then r (\<lambda>v. drop_clone b (f v))"
  by (cases r) simp_all

lemma drop_clone_result: "drop_clone b r = Inr (src, b') \<Longrightarrow> b' = b"
  by (cases r) auto

lemmas rewriter_simps = processStmt.simps processExpr.simps processLVal.simps
  processDeclarationId.simps processVariableDeclaration.simps
  processExprOrPatternLike.simps processArgument.simps

lemma processExpr_Identifier:
  "processExpr (Identifier sp ident) src bindings =
     (if ident \<in> bindings then Inr (update src (fst sp) (snd sp) (getLocalsName ident)) else Inr src)"
  by (simp add: processExpr.simps)

lemma processDeclarationId_Identifier:
  "processDeclarationId (Identifier sp ident) src bindings = Inr (src, bindings - {ident})"
  by (simp add: processDeclarationId.simps)

lemma processVariableDeclaration_Nil:
  "processVariableDeclaration (VarDecl kind []) src bindings = Inr (src, bindings)"
  by (simp add: processVariableDeclaration.simps)

lemma processVariableDeclaration_Cons:
  "processVariableDeclaration (VarDecl kind (VariableDeclarator target init # rest)) src bindings =
     and_then (case init of None \<Rightarrow> Inr src | Some expression \<Rightarrow> processExpr expression src bindings)
       (\<lambda>src. and_then (processDeclarationId target src bindings)
          (\<lambda>(src, bindings). processVariableDeclaration (VarDecl kind rest) src bindings))"
  by (simp add: processVariableDeclaration.simps and_then_assoc)

lemma processStmt_Block_Nil: "processStmt (BlockStatement []) src bindings = Inr (src, bindings)"
  by (simp add: processStmt.simps)

lemma processStmt_Block_Cons:
  "processStmt (BlockStatement (stmt # rest)) src bindings =
     and_then (processStmt stmt src bindings)
       (\<lambda>(src, inner). drop_clone bindings (processStmt (BlockStatement rest) src inner))"
  by (cases "processStmt stmt src bindings") (auto simp: processStmt.simps [of "BlockStatement _"])

lemma update_neq [simp]:
  "update src s e content \<noteq> src"
  "src \<noteq> update src s e content"
  by (cases src; simp add: update_def)+


lemmas compile_eval = compile_def parse_def parse_from.simps split_at_def filter_index_def
  getBindings_def push_def appendExport_def exportEntry_def rewriter_simps start_of_def end_of_def
  update_def remove_def new_MagicString_def append_text_def localsName_def getLocalsName_def
  from_stage_def bindingsOfSpecifier_def enumerate_eq_zip upt_rec

section \<open>The example scripts, compiled\<close>

lemma shadow_example:
  "compile shadow_src shadow_ast =
     Inr \<lparr>locals = \<lparr>original = shadow_src,
            edits = [Remove 11 46,
              Append ''export default Object.seal({get x() { return x },set x(v) { x = v },})'']\<rparr>,
          main = \<lparr>original = shadow_src,
            edits = [Remove 0 11, Remove 46 46,
              Update 11 15 ''export default (__locals__) =>'', Remove 45 46]\<rparr>\<rparr>"
  by (simp add: shadow_src_def shadow_ast_def compile_eval)

lemma nested_example:
  "compile nested_src nested_ast =
     Inr \<lparr>locals = \<lparr>original = nested_src,
            edits = [Remove 11 49,
              Append ''export default Object.seal({get x() { return x },set x(v) { x = v },})'']\<rparr>,
          main = \<lparr>original = nested_src,
            edits = [Remove 0 11, Remove 49 49, Update 23 24 ''(__locals__.x)'',
              Update 44 45 ''(__locals__.x)'',
              Update 11 15 ''export default (__locals__) =>'', Remove 48 49]\<rparr>\<rparr>"
  by (simp add: nested_src_def nested_ast_def compile_eval)

lemma initializer_example:
  "compile initializer_src initializer_ast =
     Inr \<lparr>locals = \<lparr>original = initializer_src,
            edits = [Remove 11 40,
              Append ''export default Object.seal({get x() { return x },set x(v) { x = v },})'']\<rparr>,
          main = \<lparr>original = initializer_src,
            edits = [Remove 0 11, Remove 40 40, Update 31 32 ''(__locals__.x)'',
              Update 11 15 ''export default (__locals__) =>'', Remove 39 40]\<rparr>\<rparr>"
  by (simp add: initializer_src_def initializer_ast_def compile_eval)

text \<open>
  Claim C2 says that a parameter named like a top-level binding is left as it is and hides
  the binding in the body of the function.  The code clones the set for the function but
  passes each parameter to \<open>processLVal\<close>, which rewrites an identifier that is in the set and
  removes nothing: in \<open>let x = 1; app(() => { function f(x) { return x; } });\<close> the
  parameter (offsets 34 to 35) and the reference in the body (offsets 46 to 47) are both
  rewritten.
\<close>

theorem parameter_is_rewritten:
  "compile parameter_src parameter_ast =
     Inr \<lparr>locals = \<lparr>original = parameter_src,
            edits = [Remove 11 53,
              Append ''export default Object.seal({get x() { return x },set x(v) { x = v },})'']\<rparr>,
          main = \<lparr>original = parameter_src,
            edits = [Remove 0 11, Remove 53 54, Update 34 35 ''(__locals__.x)'',
              Update 46 47 ''(__locals__.x)'',
              Update 11 15 ''export default (__locals__) =>'', Remove 52 53]\<rparr>\<rparr>"
  by (simp add: parameter_src_def parameter_ast_def compile_eval)

text \<open>
  Claim C4 says that a catch parameter hides a top-level binding of its name in the body of
  the handler.  The code clones the set, rewrites the parameter through \<open>processLVal\<close> and
  processes the body with the set of the enclosing scope: in
  \<open>let e = 1; app(() => { try { } catch (e) { e; } });\<close> the parameter (offsets 38 to 39)
  and the reference in the handler (offsets 43 to 44) are both rewritten.
\<close>

theorem catch_parameter_does_not_shadow:
  "compile catch_src catch_ast =
     Inr \<lparr>locals = \<lparr>original = catch_src,
            edits = [Remove 11 50,
              Append ''export default Object.seal({get e() { return e },set e(v) { e = v },})'']\<rparr>,
          main = \<lparr>original = catch_src,
            edits = [Remove 0 11, Remove 50 51, Update 38 39 ''(__locals__.e)'',
              Update 43 44 ''(__locals__.e)'',
              Update 11 15 ''export default (__locals__) =>'', Remove 49 50]\<rparr>\<rparr>"
  by (simp add: catch_src_def catch_ast_def compile_eval)

text \<open>
  Claim C5 says that a \<open>for...of\<close> statement leaves the set of the enclosing scope as it
  is.  The code processes the declaration of the loop header on the set of the enclosing
  scope itself: in \<open>let x = 1; app(() => { for (const x of []) { } x; });\<close> the reference
  after the loop (offsets 47 to 48) is not rewritten.
\<close>

theorem for_of_shadow_leaks:
  "compile for_of_src for_of_ast =
     Inr \<lparr>locals = \<lparr>original = for_of_src,
            edits = [Remove 11 52,
              Append ''export default Object.seal({get x() { return x },set x(v) { x = v },})'']\<rparr>,
          main = \<lparr>original = for_of_src,
            edits = [Remove 0 11, Remove 52 53,
              Update 11 15 ''export default (__locals__) =>'', Remove 51 52]\<rparr>\<rparr>"
  by (simp add: for_of_src_def for_of_ast_def compile_eval)

text \<open>
  Claim C9 says that a class expression in the argument of the entry call makes \<open>compile\<close>
  fail.  The code refuses a class declaration but skips a class expression: for
  \<open>app(() => { return class { }; });\<close> it returns both modules.
\<close>

theorem class_expression_is_accepted:
  "compile class_src class_ast =
     Inr \<lparr>locals = \<lparr>original = class_src,
            edits = [Remove 0 32, Append ''export default Object.seal({})'']\<rparr>,
          main = \<lparr>original = class_src,
            edits = [Remove 0 0, Remove 32 33,
              Update 0 4 ''export default (__locals__) =>'', Remove 31 32]\<rparr>\<rparr>"
  by (simp add: class_src_def class_ast_def compile_eval)

lemma class_declaration_is_rejected:
  "processStmt ClassDeclaration src bindings = Inl (NotImplemented ''ClassDeclaration'')"
  by (simp add: processStmt.simps)


section \<open>The core rule and shadowing by a declaration\<close>

text \<open>
  Where the rewriter meets an identifier expression, it rewrites it in place to
  \<open>(__locals__.name)\<close> exactly when the name is in the set of bindings it was given.  A
  declaration of the name in a block removes the name from the block's clone of the set:
  the statements after it in the block are processed without the name, so a reference the
  rewriter meets there stays as it is; and a block gives back, with the buffer, the set it
  was given.
\<close>

lemma identifier_rule:
  "(ident \<in> bindings \<longleftrightarrow>
      processExpr (Identifier sp ident) src bindings =
        Inr (update src (fst sp) (snd sp) (''(__locals__.'' @ ident @ '')'')))
   \<and> (ident \<notin> bindings \<longleftrightarrow> processExpr (Identifier sp ident) src bindings = Inr src)
   \<and> processStmt
        (BlockStatement
           (VariableDeclaration (VarDecl kind [VariableDeclarator (Identifier sp' ident) init]) # rest))
        src bindings =
      and_then (case init of None \<Rightarrow> Inr src | Some expression \<Rightarrow> processExpr expression src bindings)
        (\<lambda>src. drop_clone bindings (processStmt (BlockStatement rest) src (bindings - {ident})))
   \<and> processExpr (Identifier sp ident) src (bindings - {ident}) = Inr src
   \<and> processStmt (BlockStatement body) src bindings =
       drop_clone bindings (processStmt (BlockStatement body) src bindings)"
proof -
  have rule: "processExpr (Identifier sp ident) src bindings =
      (if ident \<in> bindings then Inr (update src (fst sp) (snd sp) (''(__locals__.'' @ ident @ '')''))
       else Inr src)"
    by (simp add: processExpr_Identifier getLocalsName_def localsName_def)
  have in_snapshot: "ident \<in> bindings \<longleftrightarrow>
      processExpr (Identifier sp ident) src bindings =
        Inr (update src (fst sp) (snd sp) (''(__locals__.'' @ ident @ '')''))"
    by (simp add: rule)
  have not_in_snapshot: "ident \<notin> bindings \<longleftrightarrow> processExpr (Identifier sp ident) src bindings = Inr src"
    by (simp add: rule)
  have shadow: "processStmt
        (BlockStatement
           (VariableDeclaration (VarDecl kind [VariableDeclarator (Identifier sp' ident) init]) # rest))
        src bindings =
      and_then (case init of None \<Rightarrow> Inr src | Some expression \<Rightarrow> processExpr expression src bindings)
        (\<lambda>src. drop_clone bindings (processStmt (BlockStatement rest) src (bindings - {ident})))"
    by (simp add: processStmt_Block_Cons processStmt.simps [of "VariableDeclaration _"]
        processVariableDeclaration_Cons processVariableDeclaration_Nil
        processDeclarationId_Identifier and_then_assoc)
  have after: "processExpr (Identifier sp ident) src (bindings - {ident}) = Inr src"
    by (simp add: processExpr_Identifier)
  have outside: "processStmt (BlockStatement body) src bindings =
       drop_clone bindings (processStmt (BlockStatement body) src bindings)"
    by (simp add: processStmt.simps [of "BlockStatement _"])
  from in_snapshot not_in_snapshot shadow after outside show ?thesis by blast
qed

section \<open>Declarations with an initializer\<close>

text \<open>
  Where the rewriter meets a declarator with an initializer, it rewrites the initializer with
  the set of bindings as it is before the declarator, and only then processes the target;
  for a target that is an identifier this removes the name from the set and makes no edit.
\<close>

lemma initializer_order:
  "processVariableDeclaration
     (VarDecl kind (VariableDeclarator target (Some init) # rest)) src bindings =
     and_then (processExpr init src bindings)
       (\<lambda>src. and_then (processDeclarationId target src bindings)
          (\<lambda>(src, bindings). processVariableDeclaration (VarDecl kind rest) src bindings))
   \<and> processDeclarationId (Identifier sp ident) src bindings = Inr (src, bindings - {ident})
   \<and> processVariableDeclaration
       (VarDecl kind (VariableDeclarator (Identifier sp ident) (Some init) # rest)) src bindings =
     and_then (processExpr init src bindings)
       (\<lambda>src. processVariableDeclaration (VarDecl kind rest) src (bindings - {ident}))"
  by (simp add: processVariableDeclaration_Cons processDeclarationId_Identifier)

section \<open>Binding extraction\<close>

lemma forEach_append:
  "forEach f (xs @ ys) s = and_then (forEach f xs s) (forEach f ys)"
  by (induction xs arbitrary: s) (auto simp: and_then_def split: sum.splits)

lemma bindings_of_identifier_declarators:
  "forEach (bindingsOfDeclarator ro buf)
     (map (\<lambda>(sp, ident, init). VariableDeclarator (Identifier sp ident) init) ds) bindings =
   Inr (bindings @ map (\<lambda>(sp, ident, init). \<lparr>name = ident, readonly = ro\<rparr>) ds)"
  by (induction ds arbitrary: bindings) (auto simp: push_def)

lemma bindings_of_specifiers:
  "forEach bindingsOfSpecifier specifiers bindings =
   Inr (bindings @ map (\<lambda>local. \<lparr>name = local, readonly = True\<rparr>)
          (filter (\<lambda>local. local \<noteq> ''app'') specifiers))"
  by (induction specifiers arbitrary: bindings) (auto simp: push_def bindingsOfSpecifier_def)

section \<open>Locating the entry call\<close>

lemma isCalleeApp_iff_app_rooted: "isCalleeApp callee \<longleftrightarrow> app_rooted callee"
proof
  show "isCalleeApp callee \<Longrightarrow> app_rooted callee"
    by (induction callee rule: isCalleeApp.induct) (auto intro: app_rooted.intros)
  show "app_rooted callee \<Longrightarrow> isCalleeApp callee"
    by (induction rule: app_rooted.induct) auto
qed

lemma isEntryStatement_iff_entry_call: "isEntryStatement s \<longleftrightarrow> entry_call s"
proof (cases s)
  case (ExpressionStatement expression)
  then show ?thesis
    by (cases expression) (auto simp: entry_call_def isCalleeApp_iff_app_rooted)
qed (auto simp: entry_call_def)

lemma entry_statement_expression:
  "isEntryStatement s \<Longrightarrow> \<exists>expression. s = ExpressionStatement expression"
  by (cases s) auto

lemma parse_from_none:
  "(\<And>j. i \<le> j \<Longrightarrow> j < length statements \<Longrightarrow> \<not> isEntryStatement (statements ! j))
   \<Longrightarrow> parse_from src statements i = Inl EntryPointNotFound"
proof (induction src statements i rule: parse_from.induct)
  case (1 src statements i)
  show ?case
  proof (cases "i < length statements")
    case True
    then have here: "\<not> isEntryStatement (statements ! i)"
      using "1.prems" [of i] by simp
    have "parse_from src statements (i + 1) = Inl EntryPointNotFound"
      using True here "1.prems" by (intro "1.IH"(2)) auto
    with True here show ?thesis
      by (subst parse_from.simps) simp
  next
    case False
    then show ?thesis
      by (subst parse_from.simps) simp
  qed
qed

lemma parse_from_first:
  "i \<le> k \<Longrightarrow> k < length statements \<Longrightarrow> statements ! k = ExpressionStatement expression
   \<Longrightarrow> isEntryStatement (statements ! k)
   \<Longrightarrow> (\<And>j. i \<le> j \<Longrightarrow> j < k \<Longrightarrow> \<not> isEntryStatement (statements ! j))
   \<Longrightarrow> parse_from src statements i = Inr (split_at src statements k expression)"
proof (induction src statements i rule: parse_from.induct)
  case (1 src statements i)
  show ?case
  proof (cases "i = k")
    case True
    with "1.prems" show ?thesis
      by (subst parse_from.simps) simp
  next
    case False
    with "1.prems" have less: "i < k" and here: "\<not> isEntryStatement (statements ! i)"
      by auto
    have "parse_from src statements (i + 1) = Inr (split_at src statements k expression)"
      using less here "1.prems" by (intro "1.IH"(2)) auto
    with less here "1.prems"(2) show ?thesis
      by (subst parse_from.simps) simp
  qed
qed

lemma parse_fails_iff:
  "parse src statements = Inl EntryPointNotFound \<longleftrightarrow> (\<forall>s \<in> set statements. \<not> entry_call s)"
proof
  assume failed: "parse src statements = Inl EntryPointNotFound"
  show "\<forall>s \<in> set statements. \<not> entry_call s"
  proof (rule ccontr)
    assume "\<not> (\<forall>s \<in> set statements. \<not> entry_call s)"
    then obtain n where n: "n < length statements" "isEntryStatement (statements ! n)"
      by (auto simp: in_set_conv_nth isEntryStatement_iff_entry_call)
    define k where "k = (LEAST n. n < length statements \<and> isEntryStatement (statements ! n))"
    have k: "k < length statements \<and> isEntryStatement (statements ! k)"
      unfolding k_def by (rule LeastI [of _ n]) (simp add: n)
    have first: "\<not> isEntryStatement (statements ! j)" if "j < k" for j
      using not_less_Least [of j "\<lambda>n. n < length statements \<and> isEntryStatement (statements ! n)"]
        that k unfolding k_def by auto
    obtain expression where "statements ! k = ExpressionStatement expression"
      using k entry_statement_expression by blast
    then have "parse src statements = Inr (split_at src statements k expression)"
      unfolding parse_def using k first by (intro parse_from_first) auto
    with failed show False by simp
  qed
next
  assume "\<forall>s \<in> set statements. \<not> entry_call s"
  then show "parse src statements = Inl EntryPointNotFound"
    unfolding parse_def by (intro parse_from_none) (simp add: isEntryStatement_iff_entry_call)
qed

lemma wrapMain_error: "wrapMain pr = Inl e \<Longrightarrow> e = TypeError"
  by (auto split: node.splits list.splits)

declare wrapMain.simps [simp del]

lemma compile_fails_at_parse:
  "compile src statements = Inl EntryPointNotFound \<longleftrightarrow> parse src statements = Inl EntryPointNotFound"
  by (auto simp: compile_def and_then_def from_stage_def Let_def
      split: sum.splits dest: wrapMain_error)

lemma message_entry_point_not_found:
  "message e = ''No app() call found'' \<longleftrightarrow> e = EntryPointNotFound"
proof (cases e)
  case (BindingError b)
  then show ?thesis by (cases b) auto
next
  case (RewriteError r)
  then show ?thesis by (cases r) auto
qed auto

lemma entry_forms_example:
  "parse ''app(() => {});'' plain_entry_ast =
     Inr (split_at ''app(() => {});'' plain_entry_ast 0
       (CallExpression (0, 13) (Identifier (0, 3) ''app'')
          [ArrowFunctionExpression (4, 12) [] (Inl (BlockStatement []))]))"
  "parse ''app.config({}).run(() => {});'' chained_entry_ast =
     Inr (split_at ''app.config({}).run(() => {});'' chained_entry_ast 0
       (CallExpression (0, 28)
          (MemberExpression (0, 18)
             (CallExpression (0, 14)
                (MemberExpression (0, 10) (Identifier (0, 3) ''app'') (Identifier (4, 10) ''config''))
                [ObjectExpression (11, 13) []])
             (Identifier (15, 18) ''run''))
          [ArrowFunctionExpression (19, 27) [] (Inl (BlockStatement []))]))"
  "parse ''app()(() => {});'' curried_entry_ast =
     Inr (split_at ''app()(() => {});'' curried_entry_ast 0
       (CallExpression (0, 15) (CallExpression (0, 5) (Identifier (0, 3) ''app'') [])
          [ArrowFunctionExpression (6, 14) [] (Inl (BlockStatement []))]))"
  by (simp_all add: parse_def parse_from.simps plain_entry_ast_def chained_entry_ast_def
      curried_entry_ast_def)

section \<open>The entry call with no argument\<close>

lemma wrapMain_no_argument:
  "mainAst pr = CallExpression sp callee [] \<Longrightarrow> wrapMain pr = Inl TypeError"
  by (simp add: wrapMain.simps)

lemma wrapMain_argument:
  "mainAst pr = CallExpression sp callee (argument0 # arguments) \<Longrightarrow> wrapMain pr \<noteq> Inl TypeError"
  by (simp add: wrapMain.simps)

lemma parse_from_cases:
  "(i < length statements \<and> isEntryStatement (statements ! i)
      \<and> (\<exists>expression. statements ! i = ExpressionStatement expression
            \<and> parse_from src statements i = Inr (split_at src statements i expression)))
   \<or> (i < length statements \<and> \<not> isEntryStatement (statements ! i)
      \<and> parse_from src statements i = parse_from src statements (i + 1))
   \<or> (\<not> i < length statements \<and> parse_from src statements i = Inl EntryPointNotFound)"
proof (cases "i < length statements")
  case False
  then show ?thesis
    by (subst parse_from.simps) simp
next
  case True
  show ?thesis
  proof (cases "isEntryStatement (statements ! i)")
    case False
    with True show ?thesis
      by (subst parse_from.simps) simp
  next
    case entry: True
    then obtain expression where "statements ! i = ExpressionStatement expression"
      using entry_statement_expression by blast
    with True entry show ?thesis
      by (subst parse_from.simps) simp
  qed
qed

lemma parse_error: "parse src statements = Inl e \<Longrightarrow> e = EntryPointNotFound"
proof -
  have "parse_from src statements i = Inl e \<Longrightarrow> e = EntryPointNotFound" for i
  proof (induction src statements i rule: parse_from.induct)
    case (1 src statements i)
    from parse_from_cases [of i statements src] "1.prems" "1.IH"(2) show ?case
      by auto
  qed
  then show "parse src statements = Inl e \<Longrightarrow> e = EntryPointNotFound"
    by (simp add: parse_def)
qed

lemma entry_expression:
  "isEntryStatement s \<Longrightarrow> expression_of s = Some expression
   \<Longrightarrow> \<exists>sp callee arguments. expression = CallExpression sp callee arguments"
proof (cases s)
  case (ExpressionStatement e)
  assume "isEntryStatement s" "expression_of s = Some expression"
  with ExpressionStatement show ?thesis
    by (cases e) auto
qed auto

lemma parse_result_call:
  "parse src statements = Inr pr
   \<Longrightarrow> \<exists>sp callee arguments. mainAst pr = CallExpression sp callee arguments"
proof -
  have "parse_from src statements i = Inr pr
    \<Longrightarrow> \<exists>sp callee arguments. mainAst pr = CallExpression sp callee arguments" for i
  proof (induction src statements i rule: parse_from.induct)
    case (1 src statements i)
    from parse_from_cases [of i statements src] "1.prems" "1.IH"(2) show ?case
      by (auto simp: split_at_def Let_def dest: entry_expression)
  qed
  then show "parse src statements = Inr pr
    \<Longrightarrow> \<exists>sp callee arguments. mainAst pr = CallExpression sp callee arguments"
    by (simp add: parse_def)
qed

text \<open>
  Claim C10.  When the entry call has no argument, \<open>compile\<close> returns no result, and where the
  earlier stages succeed it fails with the \<open>TypeError\<close> of the runtime, which is none of the
  errors the source throws; when the entry call has an argument, \<open>compile\<close> does not fail
  with the \<open>TypeError\<close>; and a \<open>TypeError\<close> arises in no other way.
\<close>

theorem missing_argument_is_a_type_error:
  "(parse src statements = Inr pr \<and> mainAst pr = CallExpression sp callee []
      \<longrightarrow> (\<forall>r. compile src statements \<noteq> Inr r))
   \<and> (parse src statements = Inr pr \<and> mainAst pr = CallExpression sp callee []
        \<and> getBindings pr = Inr bs
        \<and> processExpr (mainAst pr) (mainSrc pr) (set (map name bs)) = Inr src'
      \<longrightarrow> compile src statements = Inl TypeError)
   \<and> (parse src statements = Inr pr \<and> mainAst pr = CallExpression sp callee (argument0 # arguments)
      \<longrightarrow> compile src statements \<noteq> Inl TypeError)
   \<and> (compile src statements = Inl TypeError
      \<longrightarrow> (\<exists>pr sp callee. parse src statements = Inr pr \<and> mainAst pr = CallExpression sp callee []))"
proof -
  have never: "compile src statements \<noteq> Inr r"
    if "parse src statements = Inr pr" "mainAst pr = CallExpression sp callee []"
    for pr sp callee r
    using that
    by (auto simp: compile_def and_then_def from_stage_def Let_def appendExport_def
        wrapMain_no_argument split: sum.splits)
  have crash: "compile src statements = Inl TypeError"
    if "parse src statements = Inr pr" "mainAst pr = CallExpression sp callee []"
      "getBindings pr = Inr bs"
      "processExpr (mainAst pr) (mainSrc pr) (set (map name bs)) = Inr src'"
    for pr sp callee bs src'
    using that
    by (simp add: compile_def from_stage_def Let_def appendExport_def wrapMain_no_argument)
  have guarded: "compile src statements \<noteq> Inl TypeError"
    if "parse src statements = Inr pr"
      "mainAst pr = CallExpression sp callee (argument0 # arguments)"
    for pr sp callee argument0 arguments
    using that wrapMain_argument [of _ sp callee argument0 arguments]
    by (auto simp: compile_def and_then_def from_stage_def Let_def appendExport_def
        split: sum.splits)
  have only: "\<exists>pr sp callee. parse src statements = Inr pr \<and> mainAst pr = CallExpression sp callee []"
    if "compile src statements = Inl TypeError"
  proof (cases "parse src statements")
    case (Inl e)
    with that parse_error [of src statements e] show ?thesis
      by (simp add: compile_def)
  next
    case (Inr pr)
    then obtain sp callee arguments where call: "mainAst pr = CallExpression sp callee arguments"
      using parse_result_call by blast
    show ?thesis
    proof (cases arguments)
      case Nil
      with Inr call show ?thesis by blast
    next
      case (Cons argument0 rest)
      with Inr call that guarded show ?thesis by blast
    qed
  qed
  from never crash guarded only show ?thesis by blast
qed

text \<open>
  The script \<open>app();\<close> fails with the \<open>TypeError\<close>, and \<open>app(() => {});\<close> does not.
\<close>

theorem missing_argument_is_a_type_error_witness:
  "compile no_argument_src no_argument_ast = Inl TypeError
   \<and> compile ''app(() => {});'' plain_entry_ast \<noteq> Inl TypeError"
proof -
  let ?empty = "split_at no_argument_src no_argument_ast 0
      (CallExpression (0, 5) (Identifier (0, 3) ''app'') [])"
  let ?plain = "split_at ''app(() => {});'' plain_entry_ast 0
      (CallExpression (0, 13) (Identifier (0, 3) ''app'')
         [ArrowFunctionExpression (4, 12) [] (Inl (BlockStatement []))])"
  have "parse no_argument_src no_argument_ast = Inr ?empty"
    and "mainAst ?empty = CallExpression (0, 5) (Identifier (0, 3) ''app'') []"
    and "getBindings ?empty = Inr []"
    and "processExpr (mainAst ?empty) (mainSrc ?empty) (set (map name [])) = Inr (mainSrc ?empty)"
    by (simp_all add: no_argument_src_def no_argument_ast_def compile_eval)
  then have first: "compile no_argument_src no_argument_ast = Inl TypeError"
    using missing_argument_is_a_type_error
      [of no_argument_src no_argument_ast ?empty "(0, 5)" "Identifier (0, 3) ''app''"
        "[]" "mainSrc ?empty"]
    by simp
  have "parse ''app(() => {});'' plain_entry_ast = Inr ?plain"
    and "mainAst ?plain = CallExpression (0, 13) (Identifier (0, 3) ''app'')
         [ArrowFunctionExpression (4, 12) [] (Inl (BlockStatement []))]"
    by (simp_all add: plain_entry_ast_def compile_eval)
  then have second: "compile ''app(() => {});'' plain_entry_ast \<noteq> Inl TypeError"
    using missing_argument_is_a_type_error
      [of "''app(() => {});''" plain_entry_ast ?plain "(0, 13)" "Identifier (0, 3) ''app''"
        _ _ "ArrowFunctionExpression (4, 12) [] (Inl (BlockStatement []))" "[]"]
    by simp
  from first second show ?thesis ..
qed

section \<open>References the rewriter never visits\<close>

text \<open>
  Claim C1 says that, within the first argument of the entry call, an identifier expression
  is rewritten to \<open>(__locals__.name)\<close> exactly when its name is in the set of bindings in
  force at that point, so that a reference outside any shadow is rewritten.  The rewriter
  never visits the test of a \<open>do...while\<close> statement (it does visit the test of a
  \<open>while\<close> statement): in \<open>let x = 1; app(() => { do { } while (x); });\<close> the reference
  \<open>x\<close> at offsets 37 to 38 is left as it is, though \<open>x\<close> is a top-level binding that
  nothing shadows.  The main module gets the edits that cut out and wrap the argument, and
  no other.
\<close>

theorem do_while_test_is_not_rewritten:
  "compile do_while_src do_while_ast =
     Inr \<lparr>locals = \<lparr>original = do_while_src,
            edits = [Remove 11 43,
              Append ''export default Object.seal({get x() { return x },set x(v) { x = v },})'']\<rparr>,
          main = \<lparr>original = do_while_src,
            edits = [Remove 0 11, Remove 43 44,
              Update 11 15 ''export default (__locals__) =>'', Remove 42 43]\<rparr>\<rparr>"
  by (simp add: do_while_src_def do_while_ast_def compile_eval wrapMain.simps)

text \<open>The same reference as the test of a \<open>while\<close> statement is rewritten.\<close>

lemma while_test_is_rewritten:
  "compile while_src while_ast =
     Inr \<lparr>locals = \<lparr>original = while_src,
            edits = [Remove 11 39,
              Append ''export default Object.seal({get x() { return x },set x(v) { x = v },})'']\<rparr>,
          main = \<lparr>original = while_src,
            edits = [Remove 0 11, Remove 39 40, Update 30 31 ''(__locals__.x)'',
              Update 11 15 ''export default (__locals__) =>'', Remove 38 39]\<rparr>\<rparr>"
  by (simp add: while_src_def while_ast_def compile_eval wrapMain.simps)

text \<open>
  Claim C3 says that the initializer of every variable declaration inside the first argument
  of the entry call is rewritten with the set of bindings as it is before the declaration.
  The rewriter never visits the body of a \<open>for...of\<close> statement (it does visit the body
  of a \<open>for...in\<close> statement): in
  \<open>let x = 1; app(() => { for (const y of []) { let z = x; } });\<close> the initializer \<open>x\<close>
  at offsets 53 to 54 is left as it is, though \<open>x\<close> is a top-level binding that nothing
  shadows.  The main module gets the edits that cut out and wrap the argument, and no other.
\<close>

theorem for_of_body_is_not_visited:
  "compile for_of_body_src for_of_body_ast =
     Inr \<lparr>locals = \<lparr>original = for_of_body_src,
            edits = [Remove 11 60,
              Append ''export default Object.seal({get x() { return x },set x(v) { x = v },})'']\<rparr>,
          main = \<lparr>original = for_of_body_src,
            edits = [Remove 0 11, Remove 60 61,
              Update 11 15 ''export default (__locals__) =>'', Remove 59 60]\<rparr>\<rparr>"
  by (simp add: for_of_body_src_def for_of_body_ast_def compile_eval wrapMain.simps)

text \<open>The same declaration in the body of a \<open>for...in\<close> statement has its initializer rewritten.\<close>

lemma for_in_body_is_visited:
  "compile for_in_body_src for_in_body_ast =
     Inr \<lparr>locals = \<lparr>original = for_in_body_src,
            edits = [Remove 11 60,
              Append ''export default Object.seal({get x() { return x },set x(v) { x = v },})'']\<rparr>,
          main = \<lparr>original = for_in_body_src,
            edits = [Remove 0 11, Remove 60 61, Update 53 54 ''(__locals__.x)'',
              Update 11 15 ''export default (__locals__) =>'', Remove 59 60]\<rparr>\<rparr>"
  by (simp add: for_in_body_src_def for_in_body_ast_def compile_eval wrapMain.simps)

section \<open>The extractor against the specification\<close>

lemma outcome_simps [simp]:
  "outcome (Inl e) = None"
  "outcome (Inr v) = Some v"
  by (simp_all add: outcome_def)

lemma collect_map:
  "collect (\<lambda>x. map_option (map h) (f x)) xs = map_option (map h) (collect f xs)"
proof (induction xs)
  case Nil
  show ?case by simp
next
  case (Cons x xs)
  then show ?case
    by (cases "f x"; cases "collect f xs") auto
qed

lemma forEach_collect:
  assumes "\<And>x acc. x \<in> set xs \<Longrightarrow> outcome (g x acc) = map_option ((@) acc) (f x)"
  shows "outcome (forEach g xs acc) = map_option ((@) acc) (collect f xs)"
  using assms
proof (induction xs arbitrary: acc)
  case Nil
  then show ?case by simp
next
  case (Cons x xs)
  have head: "outcome (g x acc) = map_option ((@) acc) (f x)"
    by (rule Cons.prems) simp
  have tail: "outcome (forEach g xs acc') = map_option ((@) acc') (collect f xs)" for acc'
    by (rule Cons.IH) (simp add: Cons.prems)
  show ?case
  proof (cases "g x acc")
    case (Inl e)
    with head show ?thesis by (cases "f x") auto
  next
    case (Inr acc')
    with head obtain ys where "f x = Some ys" "acc' = acc @ ys"
      by (cases "f x") auto
    with Inr tail [of acc'] show ?thesis
      by (cases "collect f xs") auto
  qed
qed

lemma property_refines:
  "outcome (bindingsOfProperty ro property acc) =
     map_option ((@) acc)
       (map_option (map (\<lambda>ident. \<lparr>name = ident, readonly = ro\<rparr>)) (spec_property_names property))"
  by (cases property) (auto simp: push_def split: option.splits)

lemma target_refines:
  "outcome (bindingsOfId ro buf target acc) =
     map_option ((@) acc)
       (map_option (map (\<lambda>ident. \<lparr>name = ident, readonly = ro\<rparr>)) (spec_target_names buf target))"
proof (cases target)
  case (ObjectPattern sp properties)
  have "outcome (forEach (bindingsOfProperty ro) properties acc) =
      map_option ((@) acc)
        (collect (\<lambda>p. map_option (map (\<lambda>ident. \<lparr>name = ident, readonly = ro\<rparr>))
           (spec_property_names p)) properties)"
    by (rule forEach_collect) (rule property_refines)
  with ObjectPattern show ?thesis
    by (simp add: collect_map)
next
  case (Aux sp kind)
  then show ?thesis by (cases kind) auto
qed (auto simp: push_def)

lemma declarator_refines:
  "outcome (bindingsOfDeclarator ro buf declarator acc) =
     map_option ((@) acc)
       (map_option (map (\<lambda>ident. \<lparr>name = ident, readonly = ro\<rparr>))
          (spec_declarator_names buf declarator))"
  by (cases declarator) (simp add: target_refines)

lemma statement_refines:
  "outcome (bindingsOfStatement buf s acc) = map_option ((@) acc) (spec_statement_bindings buf s)"
proof (cases s)
  case (VariableDeclaration decl)
  obtain kind declarations where decl: "decl = VarDecl kind declarations"
    by (cases decl)
  have "outcome (forEach (bindingsOfDeclarator (kind = KConst) buf) declarations acc) =
      map_option ((@) acc)
        (collect (\<lambda>d. map_option (map (\<lambda>ident. \<lparr>name = ident, readonly = (kind = KConst)\<rparr>))
           (spec_declarator_names buf d)) declarations)"
    by (rule forEach_collect) (rule declarator_refines)
  with VariableDeclaration decl show ?thesis
    by (simp add: collect_map)
next
  case (ImportDeclaration importKind specifiers)
  then show ?thesis
    by (simp add: bindings_of_specifiers)
qed auto

lemma getBindings_refines: "outcome (getBindings pr) = spec_bindings (localsSrc pr) (localsAst pr)"
proof -
  have "outcome (forEach (bindingsOfStatement (localsSrc pr)) (localsAst pr) []) =
      map_option ((@) []) (collect (spec_statement_bindings (localsSrc pr)) (localsAst pr))"
    by (rule forEach_collect) (rule statement_refines)
  then show ?thesis
    by (cases "collect (spec_statement_bindings (localsSrc pr)) (localsAst pr)")
       (simp_all add: getBindings_def spec_bindings_def)
qed

text \<open>
  Claim C6.  The binding extractor returns the bindings the specification describes, and
  fails exactly where the specification has an unsupported target: the bindings of the
  statements in their order, each declaration giving the names of its declarators in their
  order, read-only exactly for the kind \<open>const\<close>, and each import that is not type-only
  giving a read-only binding for each local name but \<open>app\<close>.  In particular a declaration
  of identifiers yields one binding for each declarator, duplicates included; for
  \<open>const a = 1; let b = 2; import {c} from "m";\<close> the bindings are \<open>a\<close> (read-only),
  \<open>b\<close> (mutable), \<open>c\<close> (read-only); for the same statements twice they are these three
  twice; and for \<open>const {c, ...f} = o; let {k: v} = o;\<close> they are \<open>c\<close> and \<open>f\<close>
  (read-only) and \<open>k\<close> (mutable).
\<close>

theorem bindings_as_specified:
  "outcome (getBindings pr) = spec_bindings (localsSrc pr) (localsAst pr)
   \<and> spec_statement_bindings buf
       (VariableDeclaration (VarDecl kind
          (map (\<lambda>(sp, ident, init). VariableDeclarator (Identifier sp ident) init) ds))) =
     Some (map (\<lambda>(sp, ident, init). \<lparr>name = ident, readonly = (kind = KConst)\<rparr>) ds)
   \<and> getBindings \<lparr>localsAst = kinds_ast, localsSrc = buf, mainAst = call, mainSrc = buf'\<rparr> =
     Inr [\<lparr>name = ''a'', readonly = True\<rparr>, \<lparr>name = ''b'', readonly = False\<rparr>,
          \<lparr>name = ''c'', readonly = True\<rparr>]
   \<and> getBindings \<lparr>localsAst = kinds_ast @ kinds_ast, localsSrc = buf, mainAst = call,
        mainSrc = buf'\<rparr> =
     Inr [\<lparr>name = ''a'', readonly = True\<rparr>, \<lparr>name = ''b'', readonly = False\<rparr>,
          \<lparr>name = ''c'', readonly = True\<rparr>, \<lparr>name = ''a'', readonly = True\<rparr>,
          \<lparr>name = ''b'', readonly = False\<rparr>, \<lparr>name = ''c'', readonly = True\<rparr>]
   \<and> getBindings \<lparr>localsAst = pattern_ast, localsSrc = buf, mainAst = call, mainSrc = buf'\<rparr> =
     Inr [\<lparr>name = ''c'', readonly = True\<rparr>, \<lparr>name = ''f'', readonly = True\<rparr>,
          \<lparr>name = ''k'', readonly = False\<rparr>]"
proof -
  have names: "collect (spec_declarator_names buf)
      (map (\<lambda>p. VariableDeclarator (Identifier (fst p) (fst (snd p))) (snd (snd p))) ds) =
      Some (map (\<lambda>p. fst (snd p)) ds)"
    by (induction ds) auto
  have declared: "spec_statement_bindings buf
       (VariableDeclaration (VarDecl kind
          (map (\<lambda>(sp, ident, init). VariableDeclarator (Identifier sp ident) init) ds))) =
     Some (map (\<lambda>(sp, ident, init). \<lparr>name = ident, readonly = (kind = KConst)\<rparr>) ds)"
    by (simp add: case_prod_unfold names comp_def)
  have kinds: "getBindings \<lparr>localsAst = kinds_ast, localsSrc = buf, mainAst = call, mainSrc = buf'\<rparr> =
     Inr [\<lparr>name = ''a'', readonly = True\<rparr>, \<lparr>name = ''b'', readonly = False\<rparr>,
          \<lparr>name = ''c'', readonly = True\<rparr>]"
    by (simp add: getBindings_def kinds_ast_def push_def bindingsOfSpecifier_def)
  have twice: "getBindings \<lparr>localsAst = kinds_ast @ kinds_ast, localsSrc = buf, mainAst = call,
        mainSrc = buf'\<rparr> =
     Inr [\<lparr>name = ''a'', readonly = True\<rparr>, \<lparr>name = ''b'', readonly = False\<rparr>,
          \<lparr>name = ''c'', readonly = True\<rparr>, \<lparr>name = ''a'', readonly = True\<rparr>,
          \<lparr>name = ''b'', readonly = False\<rparr>, \<lparr>name = ''c'', readonly = True\<rparr>]"
    by (simp add: getBindings_def kinds_ast_def push_def bindingsOfSpecifier_def)
  have pattern: "getBindings \<lparr>localsAst = pattern_ast, localsSrc = buf, mainAst = call, mainSrc = buf'\<rparr> =
     Inr [\<lparr>name = ''c'', readonly = True\<rparr>, \<lparr>name = ''f'', readonly = True\<rparr>,
          \<lparr>name = ''k'', readonly = False\<rparr>]"
    by (simp add: getBindings_def pattern_ast_def push_def)
  from getBindings_refines declared kinds twice pattern show ?thesis by blast
qed

section \<open>Which declarations bind the name of the entry call\<close>








section \<open>What selecting the entry call gives\<close>

lemma filter_enumerate:
  "map snd (filter (\<lambda>(j, _). j \<noteq> n + i) (enumerate n xs)) = take i xs @ drop (Suc i) xs"
proof (induction xs arbitrary: n i)
  case Nil
  then show ?case by simp
next
  case (Cons x xs)
  show ?case
  proof (cases i)
    case 0
    have "filter (\<lambda>(j, _). j \<noteq> n) (enumerate (Suc n) xs) = enumerate (Suc n) xs"
      by (rule filter_True) (auto simp: in_set_enumerate_eq)
    with 0 show ?thesis by simp
  next
    case (Suc k)
    with Cons.IH [of "Suc n" k] show ?thesis by simp
  qed
qed

lemma filter_index_take_drop: "filter_index xs i = take i xs @ drop (Suc i) xs"
  using filter_enumerate [of 0 i xs] by (simp add: filter_index_def)

lemma split_at_record:
  "split_at src statements k (CallExpression sp callee arguments) =
     \<lparr>localsAst = take k statements @ drop (Suc k) statements,
      localsSrc = \<lparr>original = src, edits = [Remove (fst sp) (snd sp)]\<rparr>,
      mainAst = CallExpression sp callee arguments,
      mainSrc = \<lparr>original = src, edits = [Remove 0 (fst sp), Remove (snd sp) (length src)]\<rparr>\<rparr>"
  by (simp add: split_at_def Let_def filter_index_take_drop start_of_def end_of_def remove_def
      new_MagicString_def)

text \<open>
  Claim C8.  \<open>compile\<close> fails with \<open>EntryPointNotFound\<close> exactly when no top-level statement
  is a call expression whose callee is app-rooted, and no other error carries its message.
  Otherwise the first such statement is selected as the entry call: its call expression is
  the main syntax tree, the other statements, in their order, are the locals, the buffer of
  the locals has the span of the call removed, and the buffer of the main module has
  everything before and after that span removed.  Whenever \<open>parse\<close> returns, it has selected
  the first such statement in this way.
\<close>

theorem entry_call_selected:
  "(compile src statements = Inl EntryPointNotFound \<longleftrightarrow> (\<forall>s \<in> set statements. \<not> entry_call s))
   \<and> (message e = ''No app() call found'' \<longleftrightarrow> e = EntryPointNotFound)
   \<and> (k < length statements
        \<and> statements ! k = ExpressionStatement (CallExpression sp callee arguments)
        \<and> app_rooted callee
        \<and> (\<forall>j < k. \<not> entry_call (statements ! j))
      \<longrightarrow> parse src statements =
            Inr \<lparr>localsAst = take k statements @ drop (Suc k) statements,
                 localsSrc = \<lparr>original = src, edits = [Remove (fst sp) (snd sp)]\<rparr>,
                 mainAst = CallExpression sp callee arguments,
                 mainSrc = \<lparr>original = src,
                   edits = [Remove 0 (fst sp), Remove (snd sp) (length src)]\<rparr>\<rparr>)
   \<and> (parse src statements = Inr pr
      \<longrightarrow> (\<exists>k sp callee arguments.
             k < length statements
             \<and> statements ! k = ExpressionStatement (CallExpression sp callee arguments)
             \<and> app_rooted callee
             \<and> (\<forall>j < k. \<not> entry_call (statements ! j))
             \<and> mainAst pr = CallExpression sp callee arguments
             \<and> localsAst pr = take k statements @ drop (Suc k) statements))"
proof -
  have selected: "parse src statements =
      Inr \<lparr>localsAst = take k statements @ drop (Suc k) statements,
           localsSrc = \<lparr>original = src, edits = [Remove (fst sp) (snd sp)]\<rparr>,
           mainAst = CallExpression sp callee arguments,
           mainSrc = \<lparr>original = src,
             edits = [Remove 0 (fst sp), Remove (snd sp) (length src)]\<rparr>\<rparr>"
    if "k < length statements"
      and "statements ! k = ExpressionStatement (CallExpression sp callee arguments)"
      and "app_rooted callee"
      and "\<forall>j < k. \<not> entry_call (statements ! j)"
    for k sp callee arguments
  proof -
    have "parse src statements =
        Inr (split_at src statements k (CallExpression sp callee arguments))"
      unfolding parse_def using that
      by (intro parse_from_first)
         (auto simp: isEntryStatement_iff_entry_call entry_call_def)
    then show ?thesis
      by (simp add: split_at_record)
  qed
  have located: "\<exists>k sp callee arguments.
             k < length statements
             \<and> statements ! k = ExpressionStatement (CallExpression sp callee arguments)
             \<and> app_rooted callee
             \<and> (\<forall>j < k. \<not> entry_call (statements ! j))
             \<and> mainAst pr = CallExpression sp callee arguments
             \<and> localsAst pr = take k statements @ drop (Suc k) statements"
    if ok: "parse src statements = Inr pr"
  proof -
    have "\<not> (\<forall>s \<in> set statements. \<not> entry_call s)"
      using ok parse_fails_iff [of src statements] by auto
    then obtain n where n: "n < length statements" "entry_call (statements ! n)"
      by (auto simp: in_set_conv_nth)
    define k where "k = (LEAST n. n < length statements \<and> entry_call (statements ! n))"
    have k: "k < length statements \<and> entry_call (statements ! k)"
      unfolding k_def by (rule LeastI [of _ n]) (simp add: n)
    have "\<not> (j < length statements \<and> entry_call (statements ! j))" if "j < k" for j
      using that unfolding k_def by (rule not_less_Least)
    with k have first: "\<forall>j < k. \<not> entry_call (statements ! j)"
      by auto
    from k obtain sp callee arguments
      where call: "statements ! k = ExpressionStatement (CallExpression sp callee arguments)"
        "app_rooted callee"
      by (auto simp: entry_call_def)
    from k have less: "k < length statements"
      by simp
    from selected [OF less call first] ok have "pr =
        \<lparr>localsAst = take k statements @ drop (Suc k) statements,
         localsSrc = \<lparr>original = src, edits = [Remove (fst sp) (snd sp)]\<rparr>,
         mainAst = CallExpression sp callee arguments,
         mainSrc = \<lparr>original = src,
           edits = [Remove 0 (fst sp), Remove (snd sp) (length src)]\<rparr>\<rparr>"
      by simp
    with less call first show ?thesis
      by (intro exI [of _ k] exI [of _ sp] exI [of _ callee] exI [of _ arguments]) simp
  qed
  show ?thesis
    apply (intro conjI impI)
       apply (simp add: compile_fails_at_parse parse_fails_iff)
      apply (rule message_entry_point_not_found)
     apply (elim conjE, erule (3) selected)
    apply (erule located)
    done
qed

text \<open>
  The script \<open>f(() => {});\<close> has no entry call; in
  \<open>let x = 1; app()(() => {}); f(() => {});\<close> the second statement is selected, and the
  first and the third remain.
\<close>

theorem entry_call_selected_witness:
  "compile ''f(() => {});'' no_entry_ast = Inl EntryPointNotFound
   \<and> parse later_entry_src later_entry_ast =
     Inr \<lparr>localsAst =
            [VariableDeclaration (VarDecl KLet
               [VariableDeclarator (Identifier (4, 5) ''x'') (Some (Leaf (8, 9) NumericLiteral))]),
             ExpressionStatement (CallExpression (28, 39) (Identifier (28, 29) ''f'')
               [ArrowFunctionExpression (30, 38) [] (Inl (BlockStatement []))])],
          localsSrc = \<lparr>original = later_entry_src, edits = [Remove 11 26]\<rparr>,
          mainAst = CallExpression (11, 26)
            (CallExpression (11, 16) (Identifier (11, 14) ''app'') [])
            [ArrowFunctionExpression (17, 25) [] (Inl (BlockStatement []))],
          mainSrc = \<lparr>original = later_entry_src, edits = [Remove 0 11, Remove 26 40]\<rparr>\<rparr>"
proof -
  let ?callee = "CallExpression (11, 16) (Identifier (11, 14) ''app'') []"
  let ?arguments = "[ArrowFunctionExpression (17, 25) [] (Inl (BlockStatement []))]"
  have no_entry: "\<forall>s \<in> set no_entry_ast. \<not> entry_call s"
    by (auto simp: no_entry_ast_def entry_call_def elim: app_rooted.cases)
  have rooted: "app_rooted ?callee"
    by (intro app_rooted.intros)
  have here: "1 < length later_entry_ast
      \<and> later_entry_ast ! 1 = ExpressionStatement (CallExpression (11, 26) ?callee ?arguments)"
    by (simp add: later_entry_ast_def)
  have before: "\<forall>j < 1. \<not> entry_call (later_entry_ast ! j)"
    by (simp add: entry_call_def later_entry_ast_def)
  have first: "compile ''f(() => {});'' no_entry_ast = Inl EntryPointNotFound"
    by (rule entry_call_selected [THEN conjunct1, THEN iffD2]) (rule no_entry)
  have "parse later_entry_src later_entry_ast =
     Inr \<lparr>localsAst = take 1 later_entry_ast @ drop (Suc 1) later_entry_ast,
          localsSrc = \<lparr>original = later_entry_src,
            edits = [Remove (fst ((11, 26) :: span)) (snd ((11, 26) :: span))]\<rparr>,
          mainAst = CallExpression (11, 26) ?callee ?arguments,
          mainSrc = \<lparr>original = later_entry_src,
            edits = [Remove 0 (fst ((11, 26) :: span)),
              Remove (snd ((11, 26) :: span)) (length later_entry_src)]\<rparr>\<rparr>"
    by (rule entry_call_selected
          [of _ _ _ 1, THEN conjunct2, THEN conjunct2, THEN conjunct1, THEN mp])
       (intro conjI here [THEN conjunct1] here [THEN conjunct2] rooted before)
  then have second: "parse later_entry_src later_entry_ast =
     Inr \<lparr>localsAst =
            [VariableDeclaration (VarDecl KLet
               [VariableDeclarator (Identifier (4, 5) ''x'') (Some (Leaf (8, 9) NumericLiteral))]),
             ExpressionStatement (CallExpression (28, 39) (Identifier (28, 29) ''f'')
               [ArrowFunctionExpression (30, 38) [] (Inl (BlockStatement []))])],
          localsSrc = \<lparr>original = later_entry_src, edits = [Remove 11 26]\<rparr>,
          mainAst = CallExpression (11, 26) ?callee ?arguments,
          mainSrc = \<lparr>original = later_entry_src, edits = [Remove 0 11, Remove 26 40]\<rparr>\<rparr>"
    by (simp add: later_entry_ast_def later_entry_src_def)
  from first second show ?thesis ..
qed

end
